theory Spec2Isabelle
  imports Complex_Main "HOL-Library.Word"
begin

unbundle bit_operations_syntax

section \<open>JavaScript numbers\<close>

text \<open>
  The values a JavaScript \<^verbatim>\<open>number\<close> (and an element of a \<^verbatim>\<open>Float32Array\<close>) can take:
  a finite value, negative zero, the two infinities and NaN. \<open>Fin 0\<close> is positive zero.
  Finite arithmetic is taken in the reals: the rounding of binary64 operations and of
  stores into a \<^verbatim>\<open>Float32Array\<close> is not modelled. Every operation of the half-precision
  decoder is exact in binary64, so nothing is lost there.
\<close>

datatype number = Fin real | NegZero | PosInf | NegInf | NaN

text \<open>\<^verbatim>\<open>Math.pow(2, k)\<close> at an integer \<open>k\<close>.\<close>

definition pow2 :: "int \<Rightarrow> real" where
  "pow2 k = (if 0 \<le> k then 2 ^ nat k else 1 / 2 ^ nat (- k))"

text \<open>\<^verbatim>\<open>Number.isFinite\<close>.\<close>

definition isFinite :: "number \<Rightarrow> bool" where
  "isFinite n = (case n of Fin r \<Rightarrow> True | NegZero \<Rightarrow> True | _ \<Rightarrow> False)"

text \<open>\<^verbatim>\<open>Number.isInteger(n)\<close> and \<^verbatim>\<open>n < 0\<close>.\<close>

definition isInteger :: "number \<Rightarrow> bool" where
  "isInteger n = (case n of Fin r \<Rightarrow> of_int \<lfloor>r\<rfloor> = r | NegZero \<Rightarrow> True | _ \<Rightarrow> False)"

definition lt_zero :: "number \<Rightarrow> bool" where
  "lt_zero n = (case n of Fin r \<Rightarrow> r < 0 | NegInf \<Rightarrow> True | _ \<Rightarrow> False)"

text \<open>
  Comparison of a number with a literal: \<^verbatim>\<open>v < c\<close>, \<^verbatim>\<open>v > c\<close>, \<^verbatim>\<open>v <= c\<close>. Every
  comparison with NaN is false.
\<close>

definition num_lt :: "number \<Rightarrow> real \<Rightarrow> bool" where
  "num_lt v c = (case v of Fin r \<Rightarrow> r < c | NegZero \<Rightarrow> 0 < c | PosInf \<Rightarrow> False
                 | NegInf \<Rightarrow> True | NaN \<Rightarrow> False)"

definition num_gt :: "number \<Rightarrow> real \<Rightarrow> bool" where
  "num_gt v c = (case v of Fin r \<Rightarrow> r > c | NegZero \<Rightarrow> 0 > c | PosInf \<Rightarrow> True
                 | NegInf \<Rightarrow> False | NaN \<Rightarrow> False)"

definition num_le :: "number \<Rightarrow> real \<Rightarrow> bool" where
  "num_le v c = (case v of Fin r \<Rightarrow> r \<le> c | NegZero \<Rightarrow> 0 \<le> c | PosInf \<Rightarrow> False
                 | NegInf \<Rightarrow> True | NaN \<Rightarrow> False)"

text \<open>
  \<^verbatim>\<open>Math.min(c, v)\<close> and \<^verbatim>\<open>Math.max(c, v)\<close> with a literal \<open>c\<close>: NaN is propagated, and
  negative zero is below positive zero.
\<close>

definition Math_min :: "real \<Rightarrow> number \<Rightarrow> number" where
  "Math_min c v = (case v of Fin r \<Rightarrow> Fin (min c r)
                   | NegZero \<Rightarrow> (if c < 0 then Fin c else NegZero)
                   | PosInf \<Rightarrow> Fin c | NegInf \<Rightarrow> NegInf | NaN \<Rightarrow> NaN)"

definition Math_max :: "real \<Rightarrow> number \<Rightarrow> number" where
  "Math_max c v = (case v of Fin r \<Rightarrow> Fin (max c r)
                   | NegZero \<Rightarrow> (if 0 \<le> c then Fin c else NegZero)
                   | PosInf \<Rightarrow> PosInf | NegInf \<Rightarrow> Fin c | NaN \<Rightarrow> NaN)"

text \<open>\<^verbatim>\<open>Math.max(lo, Math.min(hi, v))\<close>.\<close>

definition clamp :: "real \<Rightarrow> real \<Rightarrow> number \<Rightarrow> number" where
  "clamp lo hi v = Math_max lo (Math_min hi v)"

section \<open>Errors\<close>

datatype tensor_dtype = F16 | F32 | U8 | I32 | I64 | Unknown

text \<open>
  The source throws \<^verbatim>\<open>Error\<close> objects that differ in their message; there is one
  constructor per kind of failure of the specification, carrying what the message reports.
  The two messages about the header (\<^verbatim>\<open>Invalid JSON header\<close>, \<^verbatim>\<open>missing tensors array\<close>)
  are the two faults of \<open>InvalidHeader\<close>, and the two messages about the position shape
  (\<^verbatim>\<open>Invalid position tensor shape\<close>, \<^verbatim>\<open>Unsupported position shape\<close>) are both
  \<open>UnsupportedShape\<close>, with the dimensions they print. \<open>RangeError\<close> is the exception of
  the JavaScript runtime for a read outside a \<^verbatim>\<open>DataView\<close> and for a typed array over a
  byte range that is not a multiple of its element size.
\<close>

datatype header_fault = InvalidJSON string | MissingTensorsArray

datatype error =
    BufferTooSmall nat
  | UnsupportedFormat string
  | BadMagic string string
  | InvalidTOCLength nat
  | HeaderTOCOverflow nat nat
  | InvalidHeader header_fault
  | HeaderTensorCountMismatch nat nat
  | UnknownDType nat nat
  | InvalidTensorBounds string nat nat
  | InvalidShapeDimension number
  | SizeMismatch string nat nat
  | UnsupportedDType tensor_dtype
  | RangeError
  | MissingPositionTensor "string list"
  | UnsupportedShape "nat list"

definition bind_result :: "error + 'a \<Rightarrow> ('a \<Rightarrow> error + 'b) \<Rightarrow> error + 'b" where
  "bind_result r f = (case r of Inl e \<Rightarrow> Inl e | Inr v \<Rightarrow> f v)"

section \<open>Typed arrays, tensor records and parsed models (types.ts)\<close>

type_synonym byte = "8 word"

text \<open>An \<^verbatim>\<open>ArrayBuffer\<close> is its sequence of bytes.\<close>

type_synonym buffer = "byte list"

text \<open>
  \<^verbatim>\<open>TensorData\<close>: the typed arrays, each with its elements. The elements of the signed
  integer arrays are words read as signed (\<open>sint\<close>), those of the unsigned ones as
  unsigned (\<open>unat\<close>).
\<close>

datatype typed_array =
    Float32Array "number list"
  | Float64Array "number list"
  | Int32Array "32 word list"
  | Uint8Array "8 word list"
  | BigInt64Array "64 word list"
  | Uint16Array "16 word list"
  | Uint8ClampedArray "8 word list"
  | Int8Array "8 word list"
  | Int16Array "16 word list"
  | Uint32Array "32 word list"
  | BigUint64Array "64 word list"

text \<open>
  \<^verbatim>\<open>TensorRecord\<close>. The field \<open>data\<close> is the typed array itself where the record is
  built (the parser), and a reference into the store where the aliasing of arrays matters
  (the resolver). A stored dimension has passed the check of \<open>product\<close>, a non-negative
  integer, so \<open>shape\<close> holds naturals.
\<close>

record 'd tensor_record =
  data :: 'd
  shape :: "nat list"
  dtype :: tensor_dtype

text \<open>
  The metadata header, read at its declared type: \<^verbatim>\<open>tensors?: Array<{name?: string;
  shape?: number[]}>\<close>, \<^verbatim>\<open>params?: {active_sh_degree?: number}\<close>,
  \<^verbatim>\<open>active_sh_degree?: number\<close>. An absent field is \<open>None\<close>; \<open>hdr_tensors\<close> is \<open>None\<close>
  also when the field is not an array, and an element of the array is \<open>None\<close> when it is
  \<^verbatim>\<open>null\<close>.
\<close>

record tensor_def =
  def_name :: "string option"
  def_shape :: "number list option"

record header =
  hdr_tensors :: "tensor_def option list option"
  hdr_params_active_sh_degree :: "number option"
  hdr_active_sh_degree :: "number option"

datatype container_format = FormatTGSP | FormatTSGD

record 'd parsed_model =
  format :: container_format
  version :: nat
  header :: header
  tensors :: "string \<rightharpoonup> 'd tensor_record"
  tensorCount :: nat
  dataSectionStart :: nat

section \<open>Container parser (containerParser.ts)\<close>

definition FILE_HEADER_SIZE :: nat where
  "FILE_HEADER_SIZE = 32"

definition TOC_ENTRY_SIZE :: nat where
  "TOC_ENTRY_SIZE = 32"

definition DTYPE_CODE_TO_NAME :: "nat \<Rightarrow> tensor_dtype option" where
  "DTYPE_CODE_TO_NAME code =
     (if code = 1 then Some F16 else if code = 2 then Some F32 else if code = 3 then Some U8
      else if code = 4 then Some I32 else if code = 5 then Some I64 else None)"

text \<open>The table has no entry for \<^verbatim>\<open>'unknown'\<close>.\<close>

fun DTYPE_BYTES :: "tensor_dtype \<Rightarrow> nat" where
  "DTYPE_BYTES F16 = 2"
| "DTYPE_BYTES F32 = 4"
| "DTYPE_BYTES U8 = 1"
| "DTYPE_BYTES I32 = 4"
| "DTYPE_BYTES I64 = 8"

text \<open>\<^verbatim>\<open>String.fromCharCode(...new Uint8Array(buffer, 0, 4))\<close>: one character per byte.\<close>

definition getMagic :: "buffer \<Rightarrow> string" where
  "getMagic buffer = map (\<lambda>b. char_of (unat b)) (take 4 buffer)"

text \<open>The natural number that a dimension accepted by \<open>product\<close> is.\<close>

definition dim_value :: "number \<Rightarrow> nat" where
  "dim_value n = (case n of Fin r \<Rightarrow> nat \<lfloor>r\<rfloor> | _ \<Rightarrow> 0)"

text \<open>
  \<^verbatim>\<open>product(shape)\<close>: 0 for an empty shape, else the \<^verbatim>\<open>reduce\<close> from 1 that throws at a
  dimension that is not a non-negative integer. The accumulator is a product of accepted
  dimensions and is kept exact; the source rounds a product beyond \<open>2^53\<close>, which then
  still differs from every byte length that has passed the bounds check.
\<close>

fun reduce_dims :: "nat \<Rightarrow> number list \<Rightarrow> error + nat" where
  "reduce_dims acc [] = Inr acc"
| "reduce_dims acc (d # rest) =
     (if \<not> isInteger d \<or> lt_zero d then Inl (InvalidShapeDimension d)
      else reduce_dims (acc * dim_value d) rest)"

definition product :: "number list \<Rightarrow> error + nat" where
  "product shp = (if shp = [] then Inr 0 else reduce_dims 1 shp)"

text \<open>
  \<^verbatim>\<open>float16ToFloat32(fp16)\<close>; the argument is an element of a \<^verbatim>\<open>Uint16Array\<close>.
  The zero branch returns the literal \<^verbatim>\<open>0\<close>, which is positive zero.
\<close>

definition float16ToFloat32 :: "16 word \<Rightarrow> number" where
  "float16ToFloat32 fp16 =
     (let sign = drop_bit 15 (fp16 AND 0x8000);
          exponent = drop_bit 10 (fp16 AND 0x7c00);
          fraction = fp16 AND 0x03ff
      in if exponent = 0 then
           (if fraction = 0 then Fin 0
            else Fin ((if sign \<noteq> 0 then - 1 else 1) * pow2 (- 14)
                        * (real (unat fraction) / pow2 10)))
         else if exponent = 31 then
           (if sign \<noteq> 0 then Fin (- 65504) else Fin 65504)
         else Fin ((if sign \<noteq> 0 then - 1 else 1) * pow2 (int (unat exponent) - 15)
                     * (1 + real (unat fraction) / pow2 10)))"

text \<open>
  Little-endian reads of a \<^verbatim>\<open>DataView\<close>; a read that leaves the buffer throws.
  \<open>getBigUint64\<close> is followed by \<^verbatim>\<open>Number(...)\<close> in the source, which is exact below
  \<open>2^53\<close>; the value is kept exact here (a larger one fails the bounds check either way).
\<close>

fun le_value :: "byte list \<Rightarrow> nat" where
  "le_value [] = 0"
| "le_value (b # bs) = unat b + 256 * le_value bs"

definition read_le :: "nat \<Rightarrow> buffer \<Rightarrow> nat \<Rightarrow> error + nat" where
  "read_le n buffer off =
     (if off + n \<le> length buffer then Inr (le_value (take n (drop off buffer)))
      else Inl RangeError)"

definition getUint32 :: "buffer \<Rightarrow> nat \<Rightarrow> error + nat" where
  "getUint32 buffer off = read_le 4 buffer off"

definition getBigUint64 :: "buffer \<Rightarrow> nat \<Rightarrow> error + nat" where
  "getBigUint64 buffer off = read_le 8 buffer off"

text \<open>
  The value of a binary32 pattern, what a \<^verbatim>\<open>Float32Array\<close> over the bytes reads.
\<close>

definition float32_of_bits :: "32 word \<Rightarrow> number" where
  "float32_of_bits w =
     (let s = 2147483648 \<le> unat w;
          e = unat w div 8388608 mod 256;
          m = unat w mod 8388608;
          sg = (if s then - 1 else 1 :: real)
      in if e = 0 then
           (if m = 0 then (if s then NegZero else Fin 0)
            else Fin (sg * pow2 (- 126) * (real m / 8388608)))
         else if e = 255 then
           (if m = 0 then (if s then NegInf else PosInf) else NaN)
         else Fin (sg * pow2 (int e - 127) * (1 + real m / 8388608)))"

text \<open>The elements of a typed array over a byte range: groups of 2, 4 and 8 bytes, in
  the little-endian byte order of the platform.\<close>

fun words_of :: "nat \<Rightarrow> byte list \<Rightarrow> nat list" where
  "words_of n bs =
     (if n = 0 \<or> length bs < n then [] else le_value (take n bs) # words_of n (drop n bs))"

declare words_of.simps [simp del]

text \<open>
  \<^verbatim>\<open>readTypedTensor\<close>: the bytes are copied, then viewed per dtype; half floats are
  expanded. A typed array constructor throws when the byte length is not a multiple of its
  element size.
\<close>

definition readTypedTensor :: "buffer \<Rightarrow> nat \<Rightarrow> nat \<Rightarrow> tensor_dtype \<Rightarrow> error + typed_array" where
  "readTypedTensor buffer absoluteOffset nbytes dt =
     (if absoluteOffset + nbytes > length buffer then Inl RangeError
      else let packed = take nbytes (drop absoluteOffset buffer)
        in case dt of
             F32 \<Rightarrow> if nbytes mod 4 \<noteq> 0 then Inl RangeError
                    else Inr (Float32Array (map (\<lambda>v. float32_of_bits (of_nat v)) (words_of 4 packed)))
           | F16 \<Rightarrow> if nbytes mod 2 \<noteq> 0 then Inl RangeError
                    else Inr (Float32Array (map (\<lambda>v. float16ToFloat32 (of_nat v)) (words_of 2 packed)))
           | U8 \<Rightarrow> Inr (Uint8Array packed)
           | I32 \<Rightarrow> if nbytes mod 4 \<noteq> 0 then Inl RangeError
                    else Inr (Int32Array (map of_nat (words_of 4 packed)))
           | I64 \<Rightarrow> if nbytes mod 8 \<noteq> 0 then Inl RangeError
                    else Inr (BigInt64Array (map of_nat (words_of 8 packed)))
           | Unknown \<Rightarrow> Inl (UnsupportedDType dt))"

text \<open>The decimal digits of an index, for the placeholder name \<^verbatim>\<open>tensor_<i>\<close>.\<close>

fun decimal :: "nat \<Rightarrow> string" where
  "decimal n =
     (if n < 10 then [char_of (48 + n)] else decimal (n div 10) @ [char_of (48 + n mod 10)])"

declare decimal.simps [simp del]

text \<open>
  \<^verbatim>\<open>JSON.parse(new TextDecoder().decode(headerBytes))\<close> belongs to the runtime and is a
  parameter of the parser: it throws a syntax error with a message, or returns a falsy
  value (\<^verbatim>\<open>null\<close>, \<^verbatim>\<open>false\<close>, \<^verbatim>\<open>0\<close>, \<^verbatim>\<open>""\<close>), or a value whose fields are read at the
  declared type of the header.
\<close>

datatype parse_result = SyntaxError string | Falsy | Object header

text \<open>
  The body of the loop over the TOC entries: entry \<open>i\<close> at byte \<open>offset\<close>. The offset and
  the byte length are unsigned, so the tests \<^verbatim>\<open>relOffset < 0\<close> and \<^verbatim>\<open>nbytes < 0\<close> of the
  source never hold.
\<close>

definition decode_entry ::
  "buffer \<Rightarrow> tensor_def option list \<Rightarrow> nat \<Rightarrow> nat \<Rightarrow> nat
     \<Rightarrow> error + (string \<times> typed_array tensor_record)" where
  "decode_entry buffer defs dataStart i offset =
     bind_result (getBigUint64 buffer offset) (\<lambda>name_hash.
     bind_result (getBigUint64 buffer (offset + 8)) (\<lambda>relOffset.
     bind_result (getBigUint64 buffer (offset + 16)) (\<lambda>nbytes.
     bind_result (getUint32 buffer (offset + 24)) (\<lambda>dtypeCode.
       case DTYPE_CODE_TO_NAME dtypeCode of
         None \<Rightarrow> Inl (UnknownDType dtypeCode i)
       | Some dt \<Rightarrow>
           if dt = Unknown then Inl (UnknownDType dtypeCode i)
           else
             let def = (case (if i < length defs then defs ! i else None) of
                          None \<Rightarrow> \<lparr>def_name = None, def_shape = None\<rparr>
                        | Some d \<Rightarrow> d);
                 name = (case def_name def of None \<Rightarrow> ''tensor_'' @ decimal i | Some n \<Rightarrow> n);
                 shp = (case def_shape def of None \<Rightarrow> [] | Some ds \<Rightarrow> ds);
                 absOffset = dataStart + relOffset
             in if absOffset + nbytes > length buffer
                then Inl (InvalidTensorBounds name relOffset nbytes)
                else
                  bind_result (product shp) (\<lambda>elemCountFromShape.
                    if elemCountFromShape > 0
                         \<and> elemCountFromShape * DTYPE_BYTES dt \<noteq> nbytes
                    then Inl (SizeMismatch name (elemCountFromShape * DTYPE_BYTES dt) nbytes)
                    else
                      bind_result (readTypedTensor buffer absOffset nbytes dt) (\<lambda>arr.
                        Inr (name, \<lparr>data = arr, shape = map dim_value shp, dtype = dt\<rparr>)))))))"

text \<open>The loop \<^verbatim>\<open>for (let i = 0; i < tensorCount; i++)\<close>; a later entry of the same name
  overwrites an earlier one.\<close>

function entries_loop ::
  "buffer \<Rightarrow> tensor_def option list \<Rightarrow> nat \<Rightarrow> nat \<Rightarrow> nat \<Rightarrow> nat
     \<Rightarrow> (string \<rightharpoonup> typed_array tensor_record)
     \<Rightarrow> error + (string \<rightharpoonup> typed_array tensor_record)" where
  "entries_loop buffer defs dataStart count i offset acc =
     (if i < count then
        (case decode_entry buffer defs dataStart i offset of
           Inl e \<Rightarrow> Inl e
         | Inr (name, rec) \<Rightarrow>
             entries_loop buffer defs dataStart count (i + 1) (offset + 32) (acc(name \<mapsto> rec)))
      else Inr acc)"
  by pat_completeness auto

termination
  by (relation "measure (\<lambda>(buffer, defs, dataStart, count, i, offset, acc). count - i)") auto

declare entries_loop.simps [simp del]

text \<open>
  \<^verbatim>\<open>parseContainer(buffer, expectedFormat)\<close>. The expected format is the string the caller
  passes. The field \<^verbatim>\<open>metadata.names\<close> (the keys of the mapping) is left out.
\<close>

definition parseContainer ::
  "(buffer \<Rightarrow> parse_result) \<Rightarrow> buffer \<Rightarrow> string \<Rightarrow> error + typed_array parsed_model" where
  "parseContainer json_parse buffer expectedFormat =
     (if length buffer < FILE_HEADER_SIZE then Inl (BufferTooSmall (length buffer))
      else
        let magic = getMagic buffer
        in if magic \<noteq> expectedFormat then Inl (BadMagic expectedFormat magic)
           else
             bind_result (getUint32 buffer 4) (\<lambda>ver.
             bind_result (getUint32 buffer 8) (\<lambda>headerLen.
             bind_result (getUint32 buffer 12) (\<lambda>tocLen.
               if tocLen mod TOC_ENTRY_SIZE \<noteq> 0 then Inl (InvalidTOCLength tocLen)
               else
                 let dataStart = FILE_HEADER_SIZE + headerLen + tocLen
                 in if dataStart > length buffer
                    then Inl (HeaderTOCOverflow dataStart (length buffer))
                    else
                      case json_parse (take headerLen (drop FILE_HEADER_SIZE buffer)) of
                        SyntaxError message \<Rightarrow> Inl (InvalidHeader (InvalidJSON message))
                      | Falsy \<Rightarrow> Inl (InvalidHeader MissingTensorsArray)
                      | Object hdr \<Rightarrow>
                          (case hdr_tensors hdr of
                             None \<Rightarrow> Inl (InvalidHeader MissingTensorsArray)
                           | Some defs \<Rightarrow>
                               let count = tocLen div TOC_ENTRY_SIZE
                               in if length defs < count
                                  then Inl (HeaderTensorCountMismatch (length defs) count)
                                  else
                                    bind_result
                                      (entries_loop buffer defs dataStart count 0
                                         (FILE_HEADER_SIZE + headerLen) Map.empty)
                                      (\<lambda>ts. Inr \<lparr>format = (if expectedFormat = ''TGSP''
                                                              then FormatTGSP else FormatTSGD),
                                                    version = ver, header = hdr, tensors = ts,
                                                    tensorCount = count,
                                                    dataSectionStart = dataStart\<rparr>))))))"

section \<open>Format detection and the loader (detectFormat.ts, tgspParser.ts, tsgdParser.ts, formatLoader.ts)\<close>

datatype parser_kind = Tgsp | Tsgd

record detected_format =
  det_format :: container_format
  det_parser :: parser_kind
  det_magic :: string

definition detectFormat :: "buffer \<Rightarrow> error + detected_format" where
  "detectFormat buffer =
     (if length buffer < 4 then Inl (BufferTooSmall (length buffer))
      else
        let magic = getMagic buffer
        in if magic = ''TGSP''
           then Inr \<lparr>det_format = FormatTGSP, det_parser = Tgsp, det_magic = magic\<rparr>
           else if magic = ''TSGD'' \<or> magic = ''TGSD''
           then Inr \<lparr>det_format = FormatTSGD, det_parser = Tsgd, det_magic = magic\<rparr>
           else Inl (UnsupportedFormat magic))"

definition parseTGSP :: "(buffer \<Rightarrow> parse_result) \<Rightarrow> buffer \<Rightarrow> error + typed_array parsed_model" where
  "parseTGSP json_parse buffer = parseContainer json_parse buffer ''TGSP''"

definition parseTSGD ::
  "(buffer \<Rightarrow> parse_result) \<Rightarrow> buffer \<Rightarrow> string \<Rightarrow> error + typed_array parsed_model" where
  "parseTSGD json_parse buffer magic = parseContainer json_parse buffer magic"

text \<open>\<^verbatim>\<open>FormatLoader.parse\<close>; the parser kind has two values, so the final \<^verbatim>\<open>throw\<close> of the
  source has no case.\<close>

definition FormatLoader_parse ::
  "(buffer \<Rightarrow> parse_result) \<Rightarrow> buffer \<Rightarrow> error + typed_array parsed_model" where
  "FormatLoader_parse json_parse buffer =
     bind_result (detectFormat buffer) (\<lambda>detected.
       case det_parser detected of
         Tgsp \<Rightarrow> parseTGSP json_parse buffer
       | Tsgd \<Rightarrow> parseTSGD json_parse buffer (det_magic detected))"

section \<open>Tensor utilities (tensorUtils.ts)\<close>

text \<open>
  Typed arrays are objects: a tensor record of a parsed model that the resolver receives
  holds a reference to its array, and the store maps references to arrays. A new array
  gets the next reference; its allocation is taken to succeed.
\<close>

type_synonym ref = nat

type_synonym store = "typed_array list"

definition new_array :: "store \<Rightarrow> typed_array \<Rightarrow> store \<times> ref" where
  "new_array s a = (s @ [a], length s)"

text \<open>The elements of a typed array as numbers (\<^verbatim>\<open>Float32Array.from(input)\<close>, and
  \<^verbatim>\<open>Number(input[i])\<close> for the 64-bit integer arrays).\<close>

fun elements :: "typed_array \<Rightarrow> number list" where
  "elements (Float32Array xs) = xs"
| "elements (Float64Array xs) = xs"
| "elements (Int32Array ws) = map (\<lambda>w. Fin (real_of_int (sint w))) ws"
| "elements (Uint8Array ws) = map (\<lambda>w. Fin (real (unat w))) ws"
| "elements (BigInt64Array ws) = map (\<lambda>w. Fin (real_of_int (sint w))) ws"
| "elements (Uint16Array ws) = map (\<lambda>w. Fin (real (unat w))) ws"
| "elements (Uint8ClampedArray ws) = map (\<lambda>w. Fin (real (unat w))) ws"
| "elements (Int8Array ws) = map (\<lambda>w. Fin (real_of_int (sint w))) ws"
| "elements (Int16Array ws) = map (\<lambda>w. Fin (real_of_int (sint w))) ws"
| "elements (Uint32Array ws) = map (\<lambda>w. Fin (real (unat w))) ws"
| "elements (BigUint64Array ws) = map (\<lambda>w. Fin (real (unat w))) ws"

definition is_Float32Array :: "typed_array \<Rightarrow> bool" where
  "is_Float32Array a = (case a of Float32Array xs \<Rightarrow> True | _ \<Rightarrow> False)"

text \<open>
  \<^verbatim>\<open>toFloat32Array(input)\<close> (tensorUtils.ts): a \<^verbatim>\<open>Float32Array\<close> is returned itself, any
  other typed array is converted into a new one. The final \<^verbatim>\<open>throw\<close> needs an input that
  is no typed array, which \<^verbatim>\<open>TensorData\<close> excludes.
\<close>

definition toFloat32Array :: "store \<Rightarrow> ref \<Rightarrow> store \<times> ref" where
  "toFloat32Array s input =
     (if is_Float32Array (s ! input) then (s, input)
      else new_array s (Float32Array (elements (s ! input))))"

text \<open>
  The inner loop of \<^verbatim>\<open>sanitizeFiniteInPlace\<close>, from step \<open>j\<close>: the replacement for the
  entry at \<open>i\<close>. The test \<^verbatim>\<open>i - j >= 0\<close> is \<open>j \<le> i\<close>.
\<close>

function find_replacement :: "number list \<Rightarrow> nat \<Rightarrow> nat \<Rightarrow> number" where
  "find_replacement values i j =
     (if j < 32 then
        (if j \<le> i \<and> isFinite (values ! (i - j)) then values ! (i - j)
         else if i + j < length values \<and> isFinite (values ! (i + j)) then values ! (i + j)
         else find_replacement values i (j + 1))
      else Fin 0)"
  by pat_completeness auto

termination
  by (relation "measure (\<lambda>(values, i, j). 32 - j)") auto

declare find_replacement.simps [simp del]

text \<open>The outer loop, from index \<open>i\<close>, on the contents of the array and the counter.\<close>

function sanitize_loop :: "nat \<Rightarrow> number list \<Rightarrow> nat \<Rightarrow> number list \<times> nat" where
  "sanitize_loop i values replaced =
     (if i < length values then
        (if isFinite (values ! i) then sanitize_loop (i + 1) values replaced
         else sanitize_loop (i + 1) (values[i := find_replacement values i 1]) (replaced + 1))
      else (values, replaced))"
  by pat_completeness auto

termination
  by (relation "measure (\<lambda>(i, values, replaced). length values - i)") auto

declare sanitize_loop.simps [simp del]

text \<open>\<^verbatim>\<open>sanitizeFiniteInPlace(values)\<close>: the new contents of the array and the count.\<close>

definition sanitizeFiniteInPlace :: "number list \<Rightarrow> number list \<times> nat" where
  "sanitizeFiniteInPlace values = sanitize_loop 0 values 0"

text \<open>\<^verbatim>\<open>sanitizeFiniteInPlace\<close> on the \<^verbatim>\<open>Float32Array\<close> behind a reference: the array is
  overwritten.\<close>

definition sanitize_at :: "store \<Rightarrow> ref \<Rightarrow> store \<times> nat" where
  "sanitize_at s r =
     (let (vs, replaced) = sanitizeFiniteInPlace (elements (s ! r))
      in (s[r := Float32Array vs], replaced))"

definition SH_C0 :: real where
  "SH_C0 = 0.28209479177387814"

text \<open>\<^verbatim>\<open>v / 255\<close> and \<^verbatim>\<open>v * SH_C0 + 0.5\<close>.\<close>

definition div_255 :: "number \<Rightarrow> number" where
  "div_255 v = (case v of Fin r \<Rightarrow> Fin (r / 255) | other \<Rightarrow> other)"

definition sh_to_color :: "number \<Rightarrow> number" where
  "sh_to_color v = (case v of Fin r \<Rightarrow> Fin (r * SH_C0 + 0.5) | NegZero \<Rightarrow> Fin 0.5
                    | other \<Rightarrow> other)"

text \<open>\<^verbatim>\<open>sigmoid(x) = 1 / (1 + Math.exp(-x))\<close>; \<^verbatim>\<open>Math.exp\<close> is 0 at minus infinity and
  infinite at plus infinity.\<close>

definition sigmoid :: "number \<Rightarrow> number" where
  "sigmoid x = (case x of Fin r \<Rightarrow> Fin (1 / (1 + exp (- r))) | NegZero \<Rightarrow> Fin (1 / 2)
                | PosInf \<Rightarrow> Fin 1 | NegInf \<Rightarrow> Fin 0 | NaN \<Rightarrow> NaN)"

text \<open>\<^verbatim>\<open>0.01 + Math.exp(v)\<close>.\<close>

definition exp_offset :: "number \<Rightarrow> number" where
  "exp_offset v = (case v of Fin r \<Rightarrow> Fin (0.01 + exp r) | NegZero \<Rightarrow> Fin 1.01
                   | PosInf \<Rightarrow> PosInf | NegInf \<Rightarrow> Fin 0.01 | NaN \<Rightarrow> NaN)"

datatype color_mode = ColorAuto | ColorLinear | ColorSH

datatype opacity_mode = OpacityAuto | OpacityLinear | OpacityLogits

datatype sigma_mode = SigmaAuto | SigmaLinear | SigmaLog

text \<open>
  \<^verbatim>\<open>decodeColorDC(colorValues, dtype, mode)\<close>: the contents of the new array \<^verbatim>\<open>out\<close> and the
  interpretation. The loops that fill \<^verbatim>\<open>out\<close> entry by entry are maps, the scan with
  \<^verbatim>\<open>break\<close> is \<open>list_ex\<close>.
\<close>

definition decodeColorDC :: "number list \<Rightarrow> tensor_dtype \<Rightarrow> color_mode \<Rightarrow> number list \<times> string" where
  "decodeColorDC colorValues dt mode =
     (let (out, interpretation) =
            (if dt = U8 then (map div_255 colorValues, ''u8'')
             else
               let treatAsSH = (mode = ColorSH
                      \<or> (mode = ColorAuto \<and> list_ex (\<lambda>v. num_lt v 0 \<or> num_gt v 1) colorValues))
               in (map (\<lambda>v. if treatAsSH then sh_to_color v else v) colorValues,
                   if treatAsSH then ''sh'' else ''linear''))
      in (map (clamp 0 1) out, interpretation))"

text \<open>\<^verbatim>\<open>applyOpacityPolicy(opacityValues, mode)\<close>.\<close>

definition applyOpacityPolicy :: "number list \<Rightarrow> opacity_mode \<Rightarrow> number list \<times> string" where
  "applyOpacityPolicy opacityValues mode =
     (let treatAsLogits = (mode = OpacityLogits
            \<or> (mode = OpacityAuto \<and> list_ex (\<lambda>v. num_lt v 0 \<or> num_gt v 1) opacityValues))
      in (map (\<lambda>v. clamp 0 1 (if treatAsLogits then sigmoid v else v)) opacityValues,
          if treatAsLogits then ''logits'' else ''linear''))"

text \<open>\<^verbatim>\<open>applySigmaPolicy(sigmaValues, mode)\<close>.\<close>

definition applySigmaPolicy :: "number list \<Rightarrow> sigma_mode \<Rightarrow> number list \<times> string" where
  "applySigmaPolicy sigmaValues mode =
     (let treatAsLogSigma = (mode = SigmaLog
            \<or> (mode = SigmaAuto \<and> list_ex (\<lambda>v. num_le v 0) sigmaValues))
      in (map (\<lambda>v. clamp 0.0001 10 (if treatAsLogSigma then exp_offset v else v)) sigmaValues,
          if treatAsLogSigma then ''log'' else ''linear''))"

section \<open>Semantic resolver (resolveSemantics.ts)\<close>

definition KEY_ALIASES_positions :: "string list" where
  "KEY_ALIASES_positions = [''triangles_points'', ''triangle_points'', ''positions'']"

definition KEY_ALIASES_colorDC :: "string list" where
  "KEY_ALIASES_colorDC = [''features_dc'', ''color_dc'', ''colors_dc'']"

definition KEY_ALIASES_colorRest :: "string list" where
  "KEY_ALIASES_colorRest = [''features_rest'', ''color_rest'', ''colors_rest'']"

definition KEY_ALIASES_opacity :: "string list" where
  "KEY_ALIASES_opacity = [''opacity_alpha'', ''opacity'', ''alpha'']"

definition KEY_ALIASES_sigma :: "string list" where
  "KEY_ALIASES_sigma = [''sigma'']"

record ResolveOptions =
  opacityMode :: "opacity_mode option"
  colorMode :: "color_mode option"
  sigmaMode :: "sigma_mode option"

fun findTensor :: "(string \<rightharpoonup> 'a) \<Rightarrow> string list \<Rightarrow> 'a option" where
  "findTensor ts [] = None"
| "findTensor ts (key # aliases) =
     (case ts key of Some t \<Rightarrow> Some t | None \<Rightarrow> findTensor ts aliases)"

definition findTensorName :: "(string \<rightharpoonup> 'a) \<Rightarrow> string list \<Rightarrow> string option" where
  "findTensorName ts aliases = find (\<lambda>k. ts k \<noteq> None) aliases"

record positions_field =
  pos_tensorName :: "string option"
  pos_data :: ref
  pos_shape :: "nat list"

record color_field =
  color_tensorName :: "string option"
  color_data :: ref
  color_interpretation :: string

record scalar_field =
  field_data :: ref
  field_interpretation :: string

record resolve_stats =
  triangleCount :: nat
  totalVertices :: nat
  replacedPositionValues :: nat
  colorInterpretation :: string
  opacityInterpretation :: string
  sigmaInterpretation :: string

record SemanticData =
  positions :: positions_field
  colorDC :: "color_field option"
  colorRest :: "ref tensor_record option"
  opacity :: "scalar_field option"
  sigma :: "scalar_field option"
  shDegree :: number
  stats :: resolve_stats

text \<open>\<^verbatim>\<open>values[i] ?? d\<close>: a read beyond the end of a typed array is \<^verbatim>\<open>undefined\<close>.\<close>

definition value_or :: "number list \<Rightarrow> nat \<Rightarrow> number \<Rightarrow> number" where
  "value_or vs i d = (if i < length vs then vs ! i else d)"

text \<open>
  The loop that copies the decoded colour of each triangle to its three vertices. A write
  beyond the end of a typed array does nothing, as \<open>list_update\<close>.
\<close>

function color_loop :: "number list \<Rightarrow> nat \<Rightarrow> nat \<Rightarrow> number list \<Rightarrow> number list" where
  "color_loop decoded count tri colors =
     (if tri < count then
        (let base = tri * 3;
             r = value_or decoded base (Fin 0.5);
             g = value_or decoded (base + 1) (Fin 0.5);
             b = value_or decoded (base + 2) (Fin 0.5)
         in color_loop decoded count (tri + 1)
              (fold (\<lambda>v cs. let dst = (tri * 3 + v) * 3
                              in cs[dst := r, dst + 1 := g, dst + 2 := b]) [0..<3] colors))
      else colors)"
  by pat_completeness auto

termination
  by (relation "measure (\<lambda>(decoded, count, tri, colors). count - tri)") auto

declare color_loop.simps [simp del]

text \<open>
  The loop that copies the value of each triangle to its three vertices, for the opacity
  (default 1) and for sigma (default 0.1): the two loops of the source differ in the
  default only.
\<close>

function broadcast_loop :: "number list \<Rightarrow> number \<Rightarrow> nat \<Rightarrow> nat \<Rightarrow> number list \<Rightarrow> number list" where
  "broadcast_loop vals dflt count tri out =
     (if tri < count then
        (let a = value_or vals tri dflt
         in broadcast_loop vals dflt count (tri + 1)
              (fold (\<lambda>v os. os[tri * 3 + v := a]) [0..<3] out))
      else out)"
  by pat_completeness auto

termination
  by (relation "measure (\<lambda>(vals, dflt, count, tri, out). count - tri)") auto

declare broadcast_loop.simps [simp del]

text \<open>The colour block: \<^verbatim>\<open>colors\<close> is created mid-gray, and filled when a colour tensor is
  found. It returns the store, the reference of \<^verbatim>\<open>colors\<close> and the interpretation.\<close>

definition resolve_color ::
  "store \<Rightarrow> ref tensor_record option \<Rightarrow> color_mode \<Rightarrow> nat \<Rightarrow> nat \<Rightarrow> store \<times> ref \<times> string" where
  "resolve_color s colorTensor mode nTriangles nVertices =
     (let (s1, colors) = new_array s (Float32Array (replicate (nVertices * 3) (Fin 0.5)))
      in case colorTensor of
           None \<Rightarrow> (s1, colors, ''none'')
         | Some ct \<Rightarrow>
             let (s2, src) = toFloat32Array s1 (data ct);
                 decoded = decodeColorDC (elements (s2 ! src)) (dtype ct) mode
             in (s2[colors := Float32Array
                      (color_loop (fst decoded) nTriangles 0 (replicate (nVertices * 3) (Fin 0.5)))],
                 colors, snd decoded))"

text \<open>The opacity block and the sigma block: the new per-vertex array, if the tensor is
  found, and the interpretation.\<close>

definition resolve_opacity ::
  "store \<Rightarrow> ref tensor_record option \<Rightarrow> opacity_mode \<Rightarrow> nat \<Rightarrow> nat
     \<Rightarrow> store \<times> ref option \<times> string" where
  "resolve_opacity s opacityTensor mode nTriangles nVertices =
     (case opacityTensor of
        None \<Rightarrow> (s, None, ''none'')
      | Some ot \<Rightarrow>
          let (s1, src) = toFloat32Array s (data ot);
              applied = applyOpacityPolicy (elements (s1 ! src)) mode;
              (s2, alphas) = new_array s1 (Float32Array
                 (broadcast_loop (fst applied) (Fin 1) nTriangles 0 (replicate nVertices (Fin 0))))
          in (s2, Some alphas, snd applied))"

definition resolve_sigma ::
  "store \<Rightarrow> ref tensor_record option \<Rightarrow> sigma_mode \<Rightarrow> nat \<Rightarrow> nat
     \<Rightarrow> store \<times> ref option \<times> string" where
  "resolve_sigma s sigmaTensor mode nTriangles nVertices =
     (case sigmaTensor of
        None \<Rightarrow> (s, None, ''none'')
      | Some st \<Rightarrow>
          let (s1, src) = toFloat32Array s (data st);
              applied = applySigmaPolicy (elements (s1 ! src)) mode;
              (s2, sigmaValues) = new_array s1 (Float32Array
                 (broadcast_loop (fst applied) (Fin 0.1) nTriangles 0 (replicate nVertices (Fin 0))))
          in (s2, Some sigmaValues, snd applied))"

text \<open>
  \<^verbatim>\<open>resolveSemantics(parsedModel, options)\<close>: the store after the call, and the error
  thrown or the semantic data returned. The sanitization comes before the checks of the
  shape, so it has happened when they throw.
\<close>

definition resolveSemantics ::
  "store \<Rightarrow> ref parsed_model \<Rightarrow> ResolveOptions \<Rightarrow> store \<times> (error + SemanticData)" where
  "resolveSemantics s parsedModel options =
     (let ts = tensors parsedModel;
          opacityMode' = (case opacityMode options of None \<Rightarrow> OpacityAuto | Some m \<Rightarrow> m);
          colorMode' = (case colorMode options of None \<Rightarrow> ColorAuto | Some m \<Rightarrow> m);
          sigmaMode' = (case sigmaMode options of None \<Rightarrow> SigmaAuto | Some m \<Rightarrow> m)
      in case findTensor ts KEY_ALIASES_positions of
           None \<Rightarrow> (s, Inl (MissingPositionTensor KEY_ALIASES_positions))
         | Some positionTensor \<Rightarrow>
             let (s1, positionData) = toFloat32Array s (data positionTensor);
                 (s2, replaced) = sanitize_at s1 positionData
             in if length (shape positionTensor) < 3
                then (s2, Inl (UnsupportedShape (shape positionTensor)))
                else
                  let nTriangles = shape positionTensor ! 0;
                      verticesPerTriangle = shape positionTensor ! 1;
                      coordsPerVertex = shape positionTensor ! 2
                  in if verticesPerTriangle \<noteq> 3 \<or> coordsPerVertex \<noteq> 3
                     then (s2, Inl (UnsupportedShape [nTriangles, verticesPerTriangle, coordsPerVertex]))
                     else
                       let nVertices = nTriangles * verticesPerTriangle;
                           colorTensor = findTensor ts KEY_ALIASES_colorDC;
                           (s3, colors, colorInterp) = resolve_color s2 colorTensor colorMode' nTriangles nVertices;
                           (s4, alphas, opacityInterp) =
                              resolve_opacity s3 (findTensor ts KEY_ALIASES_opacity) opacityMode' nTriangles nVertices;
                           (s5, sigmaValues, sigmaInterp) =
                              resolve_sigma s4 (findTensor ts KEY_ALIASES_sigma) sigmaMode' nTriangles nVertices;
                           degree = (case hdr_params_active_sh_degree (header parsedModel) of
                                       Some d \<Rightarrow> d
                                     | None \<Rightarrow> (case hdr_active_sh_degree (header parsedModel) of
                                                  Some d \<Rightarrow> d | None \<Rightarrow> Fin 0))
                       in (s5, Inr
                             \<lparr>positions = \<lparr>pos_tensorName = findTensorName ts KEY_ALIASES_positions,
                                            pos_data = positionData,
                                            pos_shape = shape positionTensor\<rparr>,
                              colorDC = (case colorTensor of
                                           None \<Rightarrow> None
                                         | Some ct \<Rightarrow>
                                             Some \<lparr>color_tensorName = findTensorName ts KEY_ALIASES_colorDC,
                                                   color_data = colors,
                                                   color_interpretation = colorInterp\<rparr>),
                              colorRest = findTensor ts KEY_ALIASES_colorRest,
                              opacity = map_option (\<lambda>a. \<lparr>field_data = a,
                                           field_interpretation = opacityInterp\<rparr>) alphas,
                              sigma = map_option (\<lambda>a. \<lparr>field_data = a,
                                           field_interpretation = sigmaInterp\<rparr>) sigmaValues,
                              shDegree = degree,
                              stats = \<lparr>triangleCount = nTriangles, totalVertices = nVertices,
                                        replacedPositionValues = replaced,
                                        colorInterpretation = colorInterp,
                                        opacityInterpretation = opacityInterp,
                                        sigmaInterpretation = sigmaInterp\<rparr>\<rparr>))"

section \<open>Notions used in the statements\<close>

subsection \<open>The fields of a binary16 pattern, arithmetically\<close>

definition sign_bit :: "16 word \<Rightarrow> bool" where
  "sign_bit w = (32768 \<le> unat w)"

definition exponent_field :: "16 word \<Rightarrow> nat" where
  "exponent_field w = unat w div 1024 mod 32"

definition mantissa_field :: "16 word \<Rightarrow> nat" where
  "mantissa_field w = unat w mod 1024"

definition sign_factor :: "16 word \<Rightarrow> real" where
  "sign_factor w = (if sign_bit w then - 1 else 1)"

text \<open>
  The decoder as the specification words it, with a signed zero: the zero of a pattern
  whose sign bit is set is negative zero.
\<close>

definition spec_half_value :: "16 word \<Rightarrow> number" where
  "spec_half_value w =
     (if exponent_field w = 0 \<and> mantissa_field w = 0 then
        (if sign_bit w then NegZero else Fin 0)
      else if exponent_field w = 0 then
        Fin (sign_factor w * 2 powr (- 14) * (real (mantissa_field w) / 1024))
      else if exponent_field w = 31 then Fin (sign_factor w * 65504)
      else Fin (sign_factor w * 2 powr (real (exponent_field w) - 15)
                  * (1 + real (mantissa_field w) / 1024)))"

subsection \<open>The layout of a container\<close>

text \<open>The little-endian fields of the fixed header and of a TOC entry.\<close>

definition u32_at :: "buffer \<Rightarrow> nat \<Rightarrow> nat" where
  "u32_at buffer off = le_value (take 4 (drop off buffer))"


definition header_length :: "buffer \<Rightarrow> nat" where
  "header_length buffer = u32_at buffer 8"

definition toc_length :: "buffer \<Rightarrow> nat" where
  "toc_length buffer = u32_at buffer 12"

definition header_bytes :: "buffer \<Rightarrow> buffer" where
  "header_bytes buffer = take (header_length buffer) (drop 32 buffer)"

definition data_start :: "buffer \<Rightarrow> nat" where
  "data_start buffer = 32 + header_length buffer + toc_length buffer"

text \<open>The checks on the fixed header pass: size, magic, TOC length, data-section start.\<close>

definition layout_ok :: "buffer \<Rightarrow> string \<Rightarrow> bool" where
  "layout_ok buffer fmt =
     (32 \<le> length buffer \<and> getMagic buffer = fmt \<and> toc_length buffer mod 32 = 0
      \<and> data_start buffer \<le> length buffer)"

text \<open>What \<open>parseContainer\<close> returns once the definitions array is long enough.\<close>

definition decode_all ::
  "buffer \<Rightarrow> string \<Rightarrow> header \<Rightarrow> tensor_def option list \<Rightarrow> error + typed_array parsed_model" where
  "decode_all buffer fmt hdr defs =
     bind_result
       (entries_loop buffer defs (data_start buffer) (toc_length buffer div 32) 0
          (32 + header_length buffer) Map.empty)
       (\<lambda>ts. Inr \<lparr>format = (if fmt = ''TGSP'' then FormatTGSP else FormatTSGD),
                   version = u32_at buffer 4, header = hdr, tensors = ts,
                   tensorCount = toc_length buffer div 32,
                   dataSectionStart = data_start buffer\<rparr>)"







subsection \<open>The search of the sanitization\<close>





subsection \<open>Ranges of values, and stores\<close>

text \<open>A number that lies in the interval from \<open>lo\<close> to \<open>hi\<close>.\<close>

definition in_range :: "real \<Rightarrow> real \<Rightarrow> number \<Rightarrow> bool" where
  "in_range lo hi v = (case v of Fin r \<Rightarrow> lo \<le> r \<and> r \<le> hi | NegZero \<Rightarrow> lo \<le> 0 \<and> 0 \<le> hi
                       | _ \<Rightarrow> False)"

text \<open>A component outside the unit interval: less than 0 or greater than 1.\<close>

definition outside_unit :: "number \<Rightarrow> bool" where
  "outside_unit v = (num_lt v 0 \<or> num_gt v 1)"


text \<open>A store that keeps every array of an earlier store as it was.\<close>

definition keeps :: "store \<Rightarrow> store \<Rightarrow> bool" where
  "keeps s s' = (length s \<le> length s' \<and> (\<forall>a<length s. s' ! a = s ! a))"

section \<open>Sample inputs\<close>

text \<open>Sample containers: a fixed header with a magic, version 1, a header length and a TOC
  length below 256, and the reserved bytes.\<close>

definition fixed_header :: "byte list \<Rightarrow> nat \<Rightarrow> nat \<Rightarrow> buffer" where
  "fixed_header magic headerLen tocLen =
     magic @ [1, 0, 0, 0] @ [of_nat headerLen, 0, 0, 0] @ [of_nat tocLen, 0, 0, 0] @ replicate 16 0"

definition tgsp_bytes :: "byte list" where "tgsp_bytes = [0x54, 0x47, 0x53, 0x50]"

definition tgsd_bytes :: "byte list" where "tgsd_bytes = [0x54, 0x47, 0x53, 0x44]"

definition header_of :: "tensor_def option list option \<Rightarrow> header" where
  "header_of ts = \<lparr>hdr_tensors = ts, hdr_params_active_sh_degree = None, hdr_active_sh_degree = None\<rparr>"






text \<open>A sample store with one array of nine floats, the first of them NaN, and a parsed
  model whose tensor "positions" refers to it.\<close>

definition sample_store :: store where
  "sample_store = [Float32Array [NaN, Fin 1, Fin 2, Fin 3, Fin 4, Fin 5, Fin 6, Fin 7, Fin 8]]"

definition sample_model :: "nat list \<Rightarrow> ref parsed_model" where
  "sample_model shp =
     \<lparr>format = FormatTSGD, version = 1, header = header_of (Some []),
      tensors = [''positions'' \<mapsto> \<lparr>data = 0, shape = shp, dtype = F32\<rparr>],
      tensorCount = 1, dataSectionStart = 64\<rparr>"

definition default_options :: ResolveOptions where
  "default_options = \<lparr>opacityMode = None, colorMode = None, sigmaMode = None\<rparr>"


text \<open>A sample store with one array of two values, and a tensor record that refers to it.\<close>

definition scalar_store :: store where
  "scalar_store = [Float32Array [Fin (1 / 4), Fin (3 / 4)]]"

definition scalar_tensor :: "ref tensor_record" where
  "scalar_tensor = \<lparr>data = 0, shape = [2], dtype = F32\<rparr>"

section \<open>Auxiliary lemmas\<close>

subsection \<open>Field extraction\<close>

lemma mask_0x7c00: "(0x7c00 :: 16 word) = push_bit 10 (mask 5)"
  by (simp add: mask_eq_exp_minus_1)

lemma mask_0x03ff: "(0x03ff :: 16 word) = mask 10"
  by (simp add: mask_eq_exp_minus_1)

lemma mask_0x8000: "(0x8000 :: 16 word) = push_bit 15 (mask 1)"
  by (simp add: mask_eq_exp_minus_1)

lemma drop_bit_and_push_bit_mask:
  "drop_bit n ((w :: 16 word) AND push_bit n (mask k)) = take_bit k (drop_bit n w)"
  by (rule bit_eqI) (auto simp add: bit_simps dest: bit_imp_le_length)

lemma unat_fraction: "unat (w AND 0x03ff :: 16 word) = mantissa_field w"
  unfolding mask_0x03ff mantissa_field_def
  by (simp add: take_bit_eq_mask [symmetric] take_bit_eq_mod unat_mod)

lemma unat_exponent: "unat (drop_bit 10 (w AND 0x7c00 :: 16 word)) = exponent_field w"
  unfolding mask_0x7c00 drop_bit_and_push_bit_mask exponent_field_def
  by (simp add: take_bit_eq_mod drop_bit_eq_div unat_mod unat_div)

lemma unat_sign: "unat (drop_bit 15 (w AND 0x8000 :: 16 word)) = unat w div 32768 mod 2"
  unfolding mask_0x8000 drop_bit_and_push_bit_mask
  by (simp add: take_bit_eq_mod drop_bit_eq_div unat_mod unat_div)

lemma sign_nonzero: "(drop_bit 15 (w AND 0x8000 :: 16 word) \<noteq> 0) = sign_bit w"
proof -
  have "unat w < 65536"
    using unsigned_less [of w] by simp
  then have "(unat w div 32768 mod 2 \<noteq> 0) = (32768 \<le> unat w)"
    by (cases "32768 \<le> unat w") simp_all
  then show ?thesis
    unfolding sign_bit_def unat_sign [symmetric] by (simp add: unat_eq_0)
qed

lemma exponent_zero: "(drop_bit 10 (w AND 0x7c00 :: 16 word) = 0) = (exponent_field w = 0)"
  unfolding unat_exponent [symmetric] by (simp add: unat_eq_0)

lemma exponent_31: "(drop_bit 10 (w AND 0x7c00 :: 16 word) = 31) = (exponent_field w = 31)"
proof -
  have n: "unat (31 :: 16 word) = 31"
    by simp
  show ?thesis
    unfolding word_unat_eq_iff [of _ "31 :: 16 word"] unat_exponent n ..
qed

lemma fraction_zero: "((w AND 0x03ff :: 16 word) = 0) = (mantissa_field w = 0)"
  unfolding unat_fraction [symmetric] by (simp add: unat_eq_0)

lemma pow2_powr: "pow2 k = 2 powr real_of_int k"
proof (cases "0 \<le> k")
  case True
  then have "real_of_int k = real (nat k)"
    by simp
  then have "2 powr real_of_int k = (2::real) ^ nat k"
    by (simp only: powr_realpow zero_less_numeral)
  then show ?thesis
    using True by (simp only: pow2_def if_True)
next
  case False
  then have "real_of_int k = - real (nat (- k))"
    by simp
  then have "2 powr real_of_int k = 1 / (2::real) ^ nat (- k)"
    by (simp only: powr_minus powr_realpow zero_less_numeral inverse_eq_divide)
  then show ?thesis
    using False by (simp only: pow2_def if_False)
qed

lemma float16ToFloat32_fields:
  "float16ToFloat32 w =
     (if exponent_field w = 0 then
        (if mantissa_field w = 0 then Fin 0
         else Fin (sign_factor w * 2 powr (- 14) * (real (mantissa_field w) / 1024)))
      else if exponent_field w = 31 then Fin (sign_factor w * 65504)
      else Fin (sign_factor w * 2 powr (real (exponent_field w) - 15)
                  * (1 + real (mantissa_field w) / 1024)))"
proof -
  have p10: "pow2 10 = 1024"
    by (simp add: pow2_def)
  have p14: "pow2 (- 14) = 2 powr (- 14)"
    by (simp add: pow2_powr)
  have pe: "pow2 (int (exponent_field w) - 15) = 2 powr (real (exponent_field w) - 15)"
    by (simp add: pow2_powr)
  show ?thesis
    unfolding float16ToFloat32_def Let_def sign_nonzero exponent_zero exponent_31
      fraction_zero unat_fraction unat_exponent p10 p14 pe sign_factor_def
    by simp
qed

subsection \<open>The parser up to the entries\<close>

lemma getUint32_in_range:
  "off + 4 \<le> length buffer \<Longrightarrow> getUint32 buffer off = Inr (u32_at buffer off)"
  by (simp add: getUint32_def read_le_def u32_at_def)


lemma parseContainer_after_magic:
  assumes "32 \<le> length buffer" "getMagic buffer = fmt"
  shows "parseContainer jp buffer fmt =
     (if toc_length buffer mod 32 \<noteq> 0 then Inl (InvalidTOCLength (toc_length buffer))
      else if data_start buffer > length buffer
        then Inl (HeaderTOCOverflow (data_start buffer) (length buffer))
      else case jp (header_bytes buffer) of
          SyntaxError message \<Rightarrow> Inl (InvalidHeader (InvalidJSON message))
        | Falsy \<Rightarrow> Inl (InvalidHeader MissingTensorsArray)
        | Object hdr \<Rightarrow>
           (case hdr_tensors hdr of
              None \<Rightarrow> Inl (InvalidHeader MissingTensorsArray)
            | Some defs \<Rightarrow>
                if length defs < toc_length buffer div 32
                then Inl (HeaderTensorCountMismatch (length defs) (toc_length buffer div 32))
                else decode_all buffer fmt hdr defs))"
proof -
  have r: "getUint32 buffer 4 = Inr (u32_at buffer 4)" "getUint32 buffer 8 = Inr (u32_at buffer 8)"
    "getUint32 buffer 12 = Inr (u32_at buffer 12)"
    using assms(1) by (simp_all add: getUint32_in_range)
  show ?thesis
    unfolding header_length_def toc_length_def header_bytes_def data_start_def decode_all_def
      parseContainer_def FILE_HEADER_SIZE_def TOC_ENTRY_SIZE_def Let_def r
    using assms
    by (simp add: bind_result_def split: parse_result.split option.split)
qed

subsection \<open>No entry reports a bad magic\<close>

lemma read_le_not_BadMagic: "read_le n buffer off \<noteq> Inl (BadMagic e m)"
  by (simp add: read_le_def)

lemma reduce_dims_not_BadMagic: "reduce_dims acc ds \<noteq> Inl (BadMagic e m)"
  by (induction ds arbitrary: acc) auto

lemma product_not_BadMagic: "product ds \<noteq> Inl (BadMagic e m)"
  by (simp add: product_def reduce_dims_not_BadMagic)

lemma readTypedTensor_not_BadMagic: "readTypedTensor buffer a n dt \<noteq> Inl (BadMagic e m)"
  by (cases dt) (simp_all add: readTypedTensor_def Let_def)

lemma bind_result_not:
  "r \<noteq> Inl e \<Longrightarrow> (\<And>v. f v \<noteq> Inl e) \<Longrightarrow> bind_result r f \<noteq> Inl e"
  by (cases r) (simp_all add: bind_result_def)

lemma decode_entry_not_BadMagic: "decode_entry buffer defs ds i off \<noteq> Inl (BadMagic e m)"
  by (auto simp: decode_entry_def bind_result_def Let_def getBigUint64_def getUint32_def
      read_le_not_BadMagic product_not_BadMagic readTypedTensor_not_BadMagic
      split: sum.splits option.splits if_splits)

lemma entries_loop_not_BadMagic:
  "entries_loop buffer defs ds count i off acc \<noteq> Inl (BadMagic e m)"
proof (induction buffer defs ds count i off acc rule: entries_loop.induct)
  case (1 buffer defs dataStart count i offset acc)
  show ?case
  proof (cases "i < count")
    case False
    then show ?thesis by (simp add: entries_loop.simps)
  next
    case True
    show ?thesis
    proof (cases "decode_entry buffer defs dataStart i offset")
      case (Inl err)
      then show ?thesis
        using True decode_entry_not_BadMagic [of buffer defs dataStart i offset e m]
        by (simp add: entries_loop.simps [of buffer defs dataStart count i])
    next
      case (Inr p)
      obtain name rec where p: "p = (name, rec)" by (cases p)
      show ?thesis
        using True Inr p "1.IH" [OF True Inr [unfolded p] refl]
        by (simp add: entries_loop.simps [of buffer defs dataStart count i] fun_upd_def)
    qed
  qed
qed

lemma decode_all_not_BadMagic: "decode_all buffer fmt hdr defs \<noteq> Inl (BadMagic e m)"
  unfolding decode_all_def by (rule bind_result_not) (simp_all add: entries_loop_not_BadMagic)

subsection \<open>Sample containers\<close>

lemma fh_length: "length magic = 4 \<Longrightarrow> length (fixed_header magic h t @ rest) = 32 + length rest"
  by (simp add: fixed_header_def)

lemma fh_magic: "length magic = 4 \<Longrightarrow> getMagic (fixed_header magic h t @ rest) = map (\<lambda>b. char_of (unat b)) magic"
  by (simp add: fixed_header_def getMagic_def)

lemma fh_hl: "length magic = 4 \<Longrightarrow> h < 256 \<Longrightarrow> header_length (fixed_header magic h t @ rest) = h"
  by (simp add: fixed_header_def header_length_def u32_at_def unat_of_nat)

lemma fh_tl: "length magic = 4 \<Longrightarrow> t < 256 \<Longrightarrow> toc_length (fixed_header magic h t @ rest) = t"
  by (simp add: fixed_header_def toc_length_def u32_at_def unat_of_nat)

lemma magic_tags: "map (\<lambda>b. char_of (unat b)) tgsp_bytes = ''TGSP''" "length tgsp_bytes = 4"
  "map (\<lambda>b. char_of (unat b)) tgsd_bytes = ''TGSD''" "length tgsd_bytes = 4"
  by (simp_all add: tgsp_bytes_def tgsd_bytes_def) code_simp+

lemma fh_facts:
  "length (fixed_header tgsp_bytes 0 0) = 32" "getMagic (fixed_header tgsp_bytes 0 0) = ''TGSP''"
  "header_length (fixed_header tgsp_bytes 0 0) = 0" "toc_length (fixed_header tgsp_bytes 0 0) = 0"
  "length (fixed_header tgsp_bytes 0 5) = 32" "getMagic (fixed_header tgsp_bytes 0 5) = ''TGSP''"
  "header_length (fixed_header tgsp_bytes 0 5) = 0" "toc_length (fixed_header tgsp_bytes 0 5) = 5"
  "length (fixed_header tgsp_bytes 0 32) = 32" "getMagic (fixed_header tgsp_bytes 0 32) = ''TGSP''"
  "header_length (fixed_header tgsp_bytes 0 32) = 0" "toc_length (fixed_header tgsp_bytes 0 32) = 32"
  "length (fixed_header tgsd_bytes 0 0) = 32" "getMagic (fixed_header tgsd_bytes 0 0) = ''TGSD''"
  "length (fixed_header tgsp_bytes 0 32 @ replicate 32 0) = 64"
  "getMagic (fixed_header tgsp_bytes 0 32 @ replicate 32 0) = ''TGSP''"
  "header_length (fixed_header tgsp_bytes 0 32 @ replicate 32 0) = 0"
  "toc_length (fixed_header tgsp_bytes 0 32 @ replicate 32 0) = 32"
  using fh_length [of tgsp_bytes 0 0 "[]"] fh_magic [of tgsp_bytes 0 0 "[]"]
    fh_hl [of tgsp_bytes 0 0 "[]"] fh_tl [where magic=tgsp_bytes and h=0 and t=0 and rest="[]"]
    fh_length [of tgsp_bytes 0 5 "[]"] fh_magic [of tgsp_bytes 0 5 "[]"]
    fh_hl [of tgsp_bytes 0 5 "[]"] fh_tl [where magic=tgsp_bytes and h=0 and t=5 and rest="[]"]
    fh_length [of tgsp_bytes 0 32 "[]"] fh_magic [of tgsp_bytes 0 32 "[]"]
    fh_hl [of tgsp_bytes 0 32 "[]"] fh_tl [where magic=tgsp_bytes and h=0 and t=32 and rest="[]"]
    fh_length [of tgsd_bytes 0 0 "[]"] fh_magic [of tgsd_bytes 0 0 "[]"]
    fh_length [of tgsp_bytes 0 32 "replicate 32 0"] fh_magic [of tgsp_bytes 0 32 "replicate 32 0"]
    fh_hl [of tgsp_bytes 0 32 "replicate 32 0"] fh_tl [where magic=tgsp_bytes and h=0 and t=32 and rest="replicate 32 0"]
  by (simp_all add: magic_tags)

subsection \<open>The size check of an entry\<close>






subsection \<open>The sanitization loops\<close>





text \<open>The entries a call leaves: every entry of the result is finite.\<close>

lemma find_replacement_finite: "isFinite (find_replacement vs i j)"
proof (induction vs i j rule: find_replacement.induct)
  case (1 vs i j)
  then show ?case
    by (subst find_replacement.simps) (auto simp: isFinite_def)
qed


subsection \<open>Clamping and NaN\<close>

lemma clamp_in_range: "lo \<le> hi \<Longrightarrow> 0 \<le> lo \<Longrightarrow> v \<noteq> NaN \<Longrightarrow> in_range lo hi (clamp lo hi v)"
  by (cases v) (auto simp: clamp_def Math_max_def Math_min_def in_range_def)

lemma clamp_NaN: "clamp lo hi v = NaN \<longleftrightarrow> v = NaN"
  by (cases v) (auto simp: clamp_def Math_max_def Math_min_def)

lemma div_255_NaN: "div_255 v = NaN \<longleftrightarrow> v = NaN"
  by (cases v) (auto simp: div_255_def)

lemma sh_to_color_NaN: "sh_to_color v = NaN \<longleftrightarrow> v = NaN"
  by (cases v) (auto simp: sh_to_color_def)

lemma sigmoid_NaN: "sigmoid v = NaN \<longleftrightarrow> v = NaN"
  by (cases v) (auto simp: sigmoid_def)


subsection \<open>The checks of the resolver\<close>

lemma resolve_positions_missing:
  "findTensor (tensors m) KEY_ALIASES_positions = None \<Longrightarrow>
     resolveSemantics s m opts = (s, Inl (MissingPositionTensor KEY_ALIASES_positions))"
  by (simp add: resolveSemantics_def Let_def)





subsection \<open>The store across the resolver\<close>

lemma keeps_refl: "keeps s s"
  by (simp add: keeps_def)

lemma keeps_trans: "keeps s s1 \<Longrightarrow> keeps s1 s2 \<Longrightarrow> keeps s s2"
  by (auto simp: keeps_def)

lemma keeps_new_array: "new_array s a = (s', r) \<Longrightarrow> keeps s s' \<and> r = length s"
  by (auto simp: new_array_def keeps_def nth_append)

lemma keeps_update_new: "keeps s s' \<Longrightarrow> length s \<le> r \<Longrightarrow> keeps s (s'[r := a])"
  by (auto simp: keeps_def)

lemma toFloat32Array_cases:
  "toFloat32Array s input = (s', r) \<Longrightarrow>
     (is_Float32Array (s ! input) \<and> s' = s \<and> r = input)
     \<or> (\<not> is_Float32Array (s ! input) \<and> s' = s @ [Float32Array (elements (s ! input))]
          \<and> r = length s)"
  by (auto simp: toFloat32Array_def new_array_def split: if_splits)

lemma keeps_toFloat32Array: "toFloat32Array s input = (s', r) \<Longrightarrow> keeps s s'"
  by (auto dest!: toFloat32Array_cases simp: keeps_def nth_append)

lemma toFloat32Array_elements:
  "toFloat32Array s input = (s', r) \<Longrightarrow> elements (s' ! r) = elements (s ! input)"
  by (auto dest!: toFloat32Array_cases)

lemma keeps_resolve_color:
  "resolve_color s ct mode n t = (s', c, i) \<Longrightarrow> keeps s s'"
proof -
  assume a: "resolve_color s ct mode n t = (s', c, i)"
  obtain s1 colors where n1: "new_array s (Float32Array (replicate (t * 3) (Fin 0.5))) = (s1, colors)"
    by (cases "new_array s (Float32Array (replicate (t * 3) (Fin 0.5)))")
  then have k1: "keeps s s1" "colors = length s"
    using keeps_new_array by blast+
  show ?thesis
  proof (cases ct)
    case None
    then show ?thesis
      using a n1 k1 by (simp add: resolve_color_def)
  next
    case (Some rec)
    obtain s2 src where t2: "toFloat32Array s1 (data rec) = (s2, src)"
      by (cases "toFloat32Array s1 (data rec)")
    then have "keeps s1 s2"
      by (rule keeps_toFloat32Array)
    then have "keeps s s2"
      using k1(1) keeps_trans by blast
    then have "keeps s (s2[colors := x])" for x
      using k1(2) by (simp add: keeps_update_new)
    then show ?thesis
      using a n1 t2 Some by (auto simp add: resolve_color_def Let_def)
  qed
qed

lemma keeps_resolve_opacity:
  "resolve_opacity s ot mode n t = (s', r, i) \<Longrightarrow> keeps s s'"
proof (cases ot)
  case None
  assume "resolve_opacity s ot mode n t = (s', r, i)"
  then show ?thesis
    using None by (simp add: resolve_opacity_def keeps_refl)
next
  case (Some rec)
  assume a: "resolve_opacity s ot mode n t = (s', r, i)"
  obtain s1 src where t1: "toFloat32Array s (data rec) = (s1, src)"
    by (cases "toFloat32Array s (data rec)")
  then have k1: "keeps s s1"
    by (rule keeps_toFloat32Array)
  have "keeps s sn" if "new_array s1 x = (sn, rn)" for x sn rn
    using keeps_new_array [OF that] k1 keeps_trans by blast
  then show ?thesis
    using a t1 Some by (auto simp add: resolve_opacity_def Let_def split: prod.splits)
qed

lemma keeps_resolve_sigma:
  "resolve_sigma s st mode n t = (s', r, i) \<Longrightarrow> keeps s s'"
proof (cases st)
  case None
  assume "resolve_sigma s st mode n t = (s', r, i)"
  then show ?thesis
    using None by (simp add: resolve_sigma_def keeps_refl)
next
  case (Some rec)
  assume a: "resolve_sigma s st mode n t = (s', r, i)"
  obtain s1 src where t1: "toFloat32Array s (data rec) = (s1, src)"
    by (cases "toFloat32Array s (data rec)")
  then have k1: "keeps s s1"
    by (rule keeps_toFloat32Array)
  have "keeps s sn" if "new_array s1 x = (sn, rn)" for x sn rn
    using keeps_new_array [OF that] k1 keeps_trans by blast
  then show ?thesis
    using a t1 Some by (auto simp add: resolve_sigma_def Let_def split: prod.splits)
qed

text \<open>The store after the call keeps the store that follows the sanitization.\<close>

lemma resolveSemantics_after_sanitize:
  assumes "findTensor (tensors m) KEY_ALIASES_positions = Some pt"
    and "toFloat32Array s (data pt) = (s1, pd)" and "sanitize_at s1 pd = (s2, n)"
  shows "keeps s2 (fst (resolveSemantics s m opts))"
proof (cases "length (shape pt) < 3 \<or> shape pt ! 1 \<noteq> 3 \<or> shape pt ! 2 \<noteq> 3")
  case True
  then show ?thesis
    using assms by (auto simp add: resolveSemantics_def Let_def keeps_refl)
next
  case False
  let ?c = "shape pt ! 0"
  obtain s3 colors ci where c: "resolve_color s2 (findTensor (tensors m) KEY_ALIASES_colorDC)
      (case colorMode opts of None \<Rightarrow> ColorAuto | Some x \<Rightarrow> x) ?c (?c * 3) = (s3, colors, ci)"
    using prod_cases3 by blast
  obtain s4 alphas oi where o: "resolve_opacity s3 (findTensor (tensors m) KEY_ALIASES_opacity)
      (case opacityMode opts of None \<Rightarrow> OpacityAuto | Some x \<Rightarrow> x) ?c (?c * 3) = (s4, alphas, oi)"
    using prod_cases3 by blast
  obtain s5 sigmas si where g: "resolve_sigma s4 (findTensor (tensors m) KEY_ALIASES_sigma)
      (case sigmaMode opts of None \<Rightarrow> SigmaAuto | Some x \<Rightarrow> x) ?c (?c * 3) = (s5, sigmas, si)"
    using prod_cases3 by blast
  have "keeps s2 s5"
    using keeps_resolve_color [OF c] keeps_resolve_opacity [OF o] keeps_resolve_sigma [OF g]
      keeps_trans by blast
  moreover have "fst (resolveSemantics s m opts) = s5"
    using assms False c o g by (simp add: resolveSemantics_def Let_def)
  ultimately show ?thesis by simp
qed


subsection \<open>The broadcast loops\<close>

lemma fold_three_updates:
  "fold (\<lambda>v os. os[b + v := a]) [0..<3] out = out[b := a, b + 1 := a, b + 2 := a]"
proof -
  have "[0..<3] = [0, 1, 2]"
    by (simp add: upt_rec)
  then show ?thesis by simp
qed

lemma broadcast_loop_spec:
  "length (broadcast_loop vals d n t out) = length out
   \<and> (\<forall>k<length out. broadcast_loop vals d n t out ! k
          = (if t * 3 \<le> k \<and> k < n * 3 then value_or vals (k div 3) d else out ! k))"
proof (induction vals d n t out rule: broadcast_loop.induct)
  case (1 vals d n t out)
  show ?case
  proof (cases "t < n")
    case False
    then have "broadcast_loop vals d n t out = out"
      by (subst broadcast_loop.simps) simp
    moreover have "\<not> (t * 3 \<le> k \<and> k < n * 3)" for k
      using False by auto
    ultimately show ?thesis by auto
  next
    case True
    let ?a = "value_or vals t d"
    let ?out1 = "out[t * 3 := ?a, t * 3 + 1 := ?a, t * 3 + 2 := ?a]"
    have step: "broadcast_loop vals d n t out = broadcast_loop vals d n (t + 1) ?out1"
      using True by (subst broadcast_loop.simps) (simp add: fold_three_updates Let_def)
    have ih: "length (broadcast_loop vals d n (t + 1) ?out1) = length ?out1"
      "\<And>k. k < length ?out1 \<Longrightarrow> broadcast_loop vals d n (t + 1) ?out1 ! k
          = (if (t + 1) * 3 \<le> k \<and> k < n * 3 then value_or vals (k div 3) d else ?out1 ! k)"
      using "1.IH" [OF True refl] by (simp_all add: fold_three_updates)
    have "broadcast_loop vals d n t out ! k
          = (if t * 3 \<le> k \<and> k < n * 3 then value_or vals (k div 3) d else out ! k)"
      if k: "k < length out" for k
    proof (cases "t * 3 \<le> k \<and> k < t * 3 + 3")
      case here: True
      then have "k div 3 = t"
        by (simp add: div_nat_eqI mult.commute)
      moreover have "k = t * 3 \<or> k = t * 3 + 1 \<or> k = t * 3 + 2"
        using here by arith
      then have "?out1 ! k = ?a"
        using k by (auto simp add: nth_list_update)
      moreover have "k < n * 3"
        using here True by simp
      ultimately show ?thesis
        using here k ih(2) [of k] by (simp add: step)
    next
      case away: False
      then have "?out1 ! k = out ! k"
        by (auto simp add: nth_list_update)
      then show ?thesis
        using away k ih(2) [of k] by (auto simp add: step)
    qed
    then show ?thesis
      using ih(1) by (simp add: step)
  qed
qed

lemma broadcast_per_vertex:
  "tri < n \<Longrightarrow> v < 3 \<Longrightarrow>
     broadcast_loop vals d n 0 (replicate (n * 3) z) ! (tri * 3 + v) = value_or vals tri d"
proof -
  assume a: "tri < n" "v < 3"
  then have k: "tri * 3 + v < n * 3"
    by simp
  have "(tri * 3 + v) div 3 = tri"
    using a by simp
  then show ?thesis
    using broadcast_loop_spec [of vals d n 0 "replicate (n * 3) z"] k by simp
qed

lemma broadcast_length:
  "length (broadcast_loop vals d n 0 (replicate t z)) = t"
  using broadcast_loop_spec [of vals d n 0 "replicate t z"] by simp

lemma resolve_opacity_found:
  assumes "resolve_opacity s (Some ot) mode n t = (s', r, tag)"
  shows "tag = snd (applyOpacityPolicy (elements (s ! data ot)) mode)
     \<and> (\<exists>a<length s'. r = Some a
          \<and> s' ! a = Float32Array (broadcast_loop
                 (fst (applyOpacityPolicy (elements (s ! data ot)) mode)) (Fin 1) n 0
                 (replicate t (Fin 0))))"
proof -
  obtain s1 src where t1: "toFloat32Array s (data ot) = (s1, src)"
    by (cases "toFloat32Array s (data ot)")
  have e: "elements (s1 ! src) = elements (s ! data ot)"
    using t1 by (rule toFloat32Array_elements)
  show ?thesis
    using assms t1 by (auto simp add: resolve_opacity_def new_array_def Let_def e)
qed


subsection \<open>The logistic function at 2\<close>

lemma exp_minus_2_bounds: "0.1353 < exp (- 2 :: real) \<and> exp (- 2 :: real) < 0.1354"
proof -
  obtain t :: real where t: "\<bar>t\<bar> \<le> \<bar>- 2\<bar>"
    and e: "exp (- 2 :: real) = (\<Sum>m<14. (- 2) ^ m / fact m) + (exp t / fact 14) * (- 2) ^ 14"
    using Maclaurin_exp_le [of "- 2" 14] by blast
  have s: "(\<Sum>m<14. (- 2 :: real) ^ m / fact m) = 117569 / 868725"
    by (simp add: eval_nat_numeral fact_numeral)
  have "exp t \<le> exp (2 :: real)"
    using t by simp
  also have "exp (2 :: real) = exp 1 * exp 1"
    by (simp add: exp_add [symmetric])
  also have "\<dots> \<le> 3 * 3"
    by (intro mult_mono exp_le) simp_all
  finally have u: "exp t \<le> 9"
    by simp
  have f: "fact 14 = (87178291200 :: real)"
    by (simp add: eval_nat_numeral)
  have r: "exp (- 2 :: real) = 117569 / 868725 + exp t * (16384 / 87178291200)"
    unfolding e s f by simp
  define y where "y = exp t"
  have y: "0 < y" "y \<le> 9"
    using u by (simp_all add: y_def)
  have "exp (- 2 :: real) = 117569 / 868725 + y * (16384 / 87178291200)"
    using r by (simp add: y_def)
  then show ?thesis
    using y by simp
qed

lemma sigmoid_2_approx: "\<bar>1 / (1 + exp (- 2 :: real)) - 0.8808\<bar> < 1 / 10 ^ 4"
proof -
  define y where "y = exp (- 2 :: real)"
  have y: "0.1353 < y" "y < 0.1354"
    using exp_minus_2_bounds by (simp_all add: y_def)
  then have p: "0 < 1 + y"
    by simp
  have "0.8807 * (1 + y) < 1" "1 < 0.8809 * (1 + y)"
    using y by simp_all
  then have b: "0.8807 < 1 / (1 + y)" "1 / (1 + y) < 0.8809"
    using p by (simp_all add: pos_less_divide_eq pos_divide_less_eq)
  define z where "z = 1 / (1 + y)"
  have "0.8807 < z" "z < 0.8809"
    using b by (simp_all add: z_def)
  moreover have "(1 :: real) / 10 ^ 4 = 0.0001"
    by simp
  ultimately have "\<bar>z - 0.8808\<bar> < 1 / 10 ^ 4"
    by linarith
  then show ?thesis
    by (simp add: z_def y_def)
qed

section \<open>Claims\<close>

text \<open>
  C1, as stated, fails on the sample model: its position tensor holds a Float32Array,
  which \<open>toFloat32Array\<close> returns itself, so the sanitization overwrites the array of the
  model; the NaN at index 0 has become 1 after the call.
\<close>

theorem C1_position_buffer_counterexample:
  "sample_store ! 0 = Float32Array [NaN, Fin 1, Fin 2, Fin 3, Fin 4, Fin 5, Fin 6, Fin 7, Fin 8]
   \<and> map_option data (tensors (sample_model [1, 3, 3]) ''positions'') = Some 0
   \<and> fst (resolveSemantics sample_store (sample_model [1, 3, 3]) default_options) ! 0
       = Float32Array [Fin 1, Fin 1, Fin 2, Fin 3, Fin 4, Fin 5, Fin 6, Fin 7, Fin 8]
   \<and> fst (resolveSemantics sample_store (sample_model [1, 3, 3]) default_options) ! 0
       \<noteq> sample_store ! 0"
proof -
  have z: "sanitizeFiniteInPlace [NaN, Fin 1, Fin 2, Fin 3, Fin 4, Fin 5, Fin 6, Fin 7, Fin 8]
      = ([Fin 1, Fin 1, Fin 2, Fin 3, Fin 4, Fin 5, Fin 6, Fin 7, Fin 8], 1)"
    by code_simp
  show ?thesis
    by (simp add: sample_store_def sample_model_def default_options_def resolveSemantics_def
        KEY_ALIASES_positions_def KEY_ALIASES_colorDC_def KEY_ALIASES_opacity_def
        KEY_ALIASES_sigma_def toFloat32Array_def is_Float32Array_def sanitize_at_def z
        resolve_color_def resolve_opacity_def resolve_sigma_def new_array_def Let_def)
qed

text \<open>
  C1 (amended). For every store and parsed model, resolving semantics leaves every array
  that existed before the call unchanged, whether it returns or throws, except the data
  buffer of the resolved position tensor when that buffer is a Float32Array (as the
  parser makes it for f32 and f16 tensors): that buffer is the one sanitized in place,
  and holds its sanitized contents after the call. A position buffer of another type is
  converted into a new array first and stays unchanged. The tensor records themselves
  (shape, dtype, reference) are not written.
\<close>

theorem C1_resolver_frame:
  "resolveSemantics s m opts = (s', res) \<Longrightarrow>
     length s \<le> length s'
     \<and> (\<forall>a<length s.
           s' ! a = (case findTensor (tensors m) KEY_ALIASES_positions of
                       None \<Rightarrow> s ! a
                     | Some pt \<Rightarrow>
                         if a = data pt \<and> is_Float32Array (s ! a)
                         then Float32Array (fst (sanitizeFiniteInPlace (elements (s ! a))))
                         else s ! a))"
proof (cases "findTensor (tensors m) KEY_ALIASES_positions")
  case None
  assume "resolveSemantics s m opts = (s', res)"
  then have "s' = s"
    using None by (simp add: resolve_positions_missing)
  then show ?thesis
    using None by simp
next
  case (Some pt)
  assume r: "resolveSemantics s m opts = (s', res)"
  obtain s1 pd where t: "toFloat32Array s (data pt) = (s1, pd)"
    by (cases "toFloat32Array s (data pt)")
  obtain s2 n where z: "sanitize_at s1 pd = (s2, n)"
    by (cases "sanitize_at s1 pd")
  have k: "keeps s2 s'"
    using resolveSemantics_after_sanitize [OF Some t z, of opts] r by simp
  have s2: "s2 = s1[pd := Float32Array (fst (sanitizeFiniteInPlace (elements (s1 ! pd))))]"
    using z by (auto simp add: sanitize_at_def split: prod.splits)
  from toFloat32Array_cases [OF t] show ?thesis
  proof
    assume f: "is_Float32Array (s ! data pt) \<and> s1 = s \<and> pd = data pt"
    then have "length s2 = length s"
      using s2 by simp
    then show ?thesis
      using k f s2 Some by (auto simp add: keeps_def)
  next
    assume f: "\<not> is_Float32Array (s ! data pt)
        \<and> s1 = s @ [Float32Array (elements (s ! data pt))] \<and> pd = length s"
    then have "length s2 = length s + 1" "\<forall>a<length s. s2 ! a = s ! a"
      using s2 by (simp_all add: nth_append)
    then show ?thesis
      using k f Some by (auto simp add: keeps_def)
  qed
qed

theorem C1_resolver_frame_witness:
  "resolveSemantics sample_store (sample_model [2, 4, 3]) default_options
     = ([Float32Array [Fin 1, Fin 1, Fin 2, Fin 3, Fin 4, Fin 5, Fin 6, Fin 7, Fin 8]],
        Inl (UnsupportedShape [2, 4, 3]))
   \<and> is_Float32Array (sample_store ! 0)
   \<and> Float32Array (fst (sanitizeFiniteInPlace (elements (sample_store ! 0))))
       = Float32Array [Fin 1, Fin 1, Fin 2, Fin 3, Fin 4, Fin 5, Fin 6, Fin 7, Fin 8]"
proof -
  have r: "resolveSemantics sample_store (sample_model [2, 4, 3]) default_options
     = ([Float32Array [Fin 1, Fin 1, Fin 2, Fin 3, Fin 4, Fin 5, Fin 6, Fin 7, Fin 8]],
        Inl (UnsupportedShape [2, 4, 3]))"
  proof -
    have z: "sanitizeFiniteInPlace [NaN, Fin 1, Fin 2, Fin 3, Fin 4, Fin 5, Fin 6, Fin 7, Fin 8]
        = ([Fin 1, Fin 1, Fin 2, Fin 3, Fin 4, Fin 5, Fin 6, Fin 7, Fin 8], 1)"
      by code_simp
    show ?thesis
      by (simp add: sample_store_def sample_model_def default_options_def resolveSemantics_def
          KEY_ALIASES_positions_def toFloat32Array_def is_Float32Array_def sanitize_at_def z
          Let_def)
  qed
  have f: "findTensor (tensors (sample_model [2, 4, 3])) KEY_ALIASES_positions
      = Some \<lparr>data = 0, shape = [2, 4, 3], dtype = F32\<rparr>"
    by (simp add: sample_model_def KEY_ALIASES_positions_def)
  have i: "is_Float32Array (sample_store ! 0)" "length sample_store = 1"
    by (simp_all add: sample_store_def is_Float32Array_def)
  show ?thesis
    using C1_resolver_frame [OF r] r i by (simp add: f)
qed




text \<open>
  C3, as stated, fails at the pattern \<open>0x8000\<close> (sign bit set, exponent field and mantissa
  zero): the specification's signed zero is negative zero there, the decoder returns
  positive zero.
\<close>

theorem C3_signed_zero_counterexample:
  "float16ToFloat32 0x8000 = Fin 0 \<and> spec_half_value 0x8000 = NegZero
     \<and> float16ToFloat32 0x8000 \<noteq> spec_half_value 0x8000"
  by (simp add: float16ToFloat32_def spec_half_value_def sign_bit_def exponent_field_def
      mantissa_field_def)

text \<open>
  C3 (amended). For every 16-bit pattern the half-precision decoder returns positive zero
  when exponent field and mantissa are 0, whatever the sign bit; sign * 2^-14 *
  (mantissa / 1024) when the exponent field is 0 and the mantissa is not; sign * 65504
  when the exponent field is 31, whatever the mantissa; and sign * 2^(exponent - 15) *
  (1 + mantissa / 1024) otherwise. In particular 0x3C00 gives 1, 0x0000 gives 0, 0xC000
  gives -2, 0x7C00 gives 65504 and 0xFC00 gives -65504.
\<close>

theorem C3_float16ToFloat32_cases:
  "(exponent_field w = 0 \<and> mantissa_field w = 0 \<longrightarrow> float16ToFloat32 w = Fin 0)
   \<and> (exponent_field w = 0 \<and> mantissa_field w \<noteq> 0 \<longrightarrow>
        float16ToFloat32 w = Fin (sign_factor w * 2 powr (- 14) * (real (mantissa_field w) / 1024)))
   \<and> (exponent_field w = 31 \<longrightarrow> float16ToFloat32 w = Fin (sign_factor w * 65504))
   \<and> (exponent_field w \<noteq> 0 \<and> exponent_field w \<noteq> 31 \<longrightarrow>
        float16ToFloat32 w = Fin (sign_factor w * 2 powr (real (exponent_field w) - 15)
                                    * (1 + real (mantissa_field w) / 1024)))
   \<and> (exponent_field w \<noteq> 0 \<or> mantissa_field w \<noteq> 0 \<longrightarrow> float16ToFloat32 w = spec_half_value w)
   \<and> float16ToFloat32 0x3C00 = Fin 1
   \<and> float16ToFloat32 0x0000 = Fin 0
   \<and> float16ToFloat32 0xC000 = Fin (- 2)
   \<and> float16ToFloat32 0x7C00 = Fin 65504
   \<and> float16ToFloat32 0xFC00 = Fin (- 65504)"
proof -
  have ex: "float16ToFloat32 0x3C00 = Fin 1" "float16ToFloat32 0x0000 = Fin 0"
    "float16ToFloat32 0xC000 = Fin (- 2)" "float16ToFloat32 0x7C00 = Fin 65504"
    "float16ToFloat32 0xFC00 = Fin (- 65504)"
    by (simp_all add: float16ToFloat32_def pow2_def)
  show ?thesis
    unfolding ex by (simp add: float16ToFloat32_fields spec_half_value_def)
qed

theorem C3_float16ToFloat32_cases_witness:
  "exponent_field 0x8000 = 0 \<and> mantissa_field 0x8000 = 0 \<and> float16ToFloat32 0x8000 = Fin 0
   \<and> exponent_field 0x8001 = 0 \<and> mantissa_field 0x8001 \<noteq> 0
   \<and> float16ToFloat32 0x8001 = Fin (- (1 / 16777216))
   \<and> exponent_field 0x7E00 = 31 \<and> float16ToFloat32 0x7E00 = Fin 65504
   \<and> exponent_field 0x4200 \<noteq> 0 \<and> exponent_field 0x4200 \<noteq> 31
   \<and> float16ToFloat32 0x4200 = Fin 3"
proof -
  have f: "exponent_field 0x8000 = 0" "mantissa_field 0x8000 = 0"
    "exponent_field 0x8001 = 0" "mantissa_field 0x8001 = 1"
    "exponent_field 0x7E00 = 31" "mantissa_field 0x7E00 = 512"
    "exponent_field 0x4200 = 16" "mantissa_field 0x4200 = 512"
    by (simp_all add: exponent_field_def mantissa_field_def)
  have s: "sign_factor 0x8000 = - 1" "sign_factor 0x8001 = - 1" "sign_factor 0x7E00 = 1"
    "sign_factor 0x4200 = 1"
    by (simp_all add: sign_factor_def sign_bit_def)
  have p14: "(2::real) powr (- 14) = 1 / 16384"
    using pow2_powr [of "- 14"] by (simp add: pow2_def)
  have p1: "(2::real) powr (real 16 - 15) = 2"
    by simp
  note p = p14 p1
  have a: "float16ToFloat32 0x8000 = Fin 0"
    using C3_float16ToFloat32_cases [of "0x8000"] by (simp add: f)
  have b: "float16ToFloat32 0x8001 = Fin (- (1 / 16777216))"
    using C3_float16ToFloat32_cases [of "0x8001"] by (simp add: f s p)
  have c: "float16ToFloat32 0x7E00 = Fin 65504"
    using C3_float16ToFloat32_cases [of "0x7E00"] by (simp add: f s)
  have d: "float16ToFloat32 0x4200 = Fin 3"
    using C3_float16ToFloat32_cases [of "0x4200"] by (simp add: f s p)
  show ?thesis
    unfolding a b c d f by simp
qed



text \<open>
  C5, as stated, fails on the buffer [NaN] with dtype f32 under "auto": the output is NaN,
  which the two comparisons of the scan and \<^verbatim>\<open>Math.min\<close> and \<^verbatim>\<open>Math.max\<close> let through, and
  not a value of the interval [0,1].
\<close>

theorem C5_nan_counterexample:
  "decodeColorDC [NaN] F32 ColorAuto = ([NaN], ''linear'')
   \<and> \<not> list_all (in_range 0 1) (fst (decodeColorDC [NaN] F32 ColorAuto))"
  by (simp add: decodeColorDC_def num_lt_def num_gt_def clamp_def Math_max_def Math_min_def
      in_range_def)

text \<open>
  C5 (amended). For every colour buffer: with dtype uint8 every component is divided by
  255 and the interpretation is "u8"; otherwise the mode "sh" forces SH, "linear" forces
  linear, and "auto" gives "sh" exactly when some component is less than 0 or greater than
  1 (a NaN component is neither), else "linear". SH components are transformed to
  v * SH_C0 + 0.5 with SH_C0 = 0.28209479177387814 (0.282095 to six decimals), linear
  ones pass through, and every output goes through max(0, min(1, .)): an output lies in
  [0,1] unless its component is NaN, which stays NaN. The raw component 1 under SH, as in
  the buffer [1, 2] under "auto", gives 0.78209479177387814, that is 0.782095 to six
  decimals.
\<close>

theorem C5_decodeColorDC:
  "(dt = U8 \<longrightarrow> decodeColorDC vs dt mode = (map (\<lambda>v. clamp 0 1 (div_255 v)) vs, ''u8''))
   \<and> (dt \<noteq> U8 \<and> (mode = ColorSH \<or> (mode = ColorAuto \<and> (\<exists>v\<in>set vs. outside_unit v))) \<longrightarrow>
        decodeColorDC vs dt mode = (map (\<lambda>v. clamp 0 1 (sh_to_color v)) vs, ''sh''))
   \<and> (dt \<noteq> U8 \<and> (mode = ColorLinear \<or> (mode = ColorAuto \<and> \<not> (\<exists>v\<in>set vs. outside_unit v))) \<longrightarrow>
        decodeColorDC vs dt mode = (map (clamp 0 1) vs, ''linear''))
   \<and> length (fst (decodeColorDC vs dt mode)) = length vs
   \<and> (\<forall>i<length vs. (vs ! i \<noteq> NaN \<longrightarrow> in_range 0 1 (fst (decodeColorDC vs dt mode) ! i))
                     \<and> (vs ! i = NaN \<longrightarrow> fst (decodeColorDC vs dt mode) ! i = NaN))
   \<and> sh_to_color (Fin v) = Fin (v * 0.28209479177387814 + 0.5)
   \<and> decodeColorDC [Fin 1, Fin 2] F32 ColorAuto = ([Fin 0.78209479177387814, Fin 1], ''sh'')
   \<and> \<bar>0.78209479177387814 - 0.782095 :: real\<bar> < 1 / 10 ^ 6"
proof -
  have ex: "list_ex (\<lambda>v. num_lt v 0 \<or> num_gt v 1) vs = (\<exists>v\<in>set vs. outside_unit v)"
    by (simp add: list_ex_iff outside_unit_def)
  have r: "(v \<noteq> NaN \<longrightarrow> in_range 0 1 (clamp 0 1 (div_255 v)))
           \<and> (v \<noteq> NaN \<longrightarrow> in_range 0 1 (clamp 0 1 (sh_to_color v)))
           \<and> (v \<noteq> NaN \<longrightarrow> in_range 0 1 (clamp 0 1 v))" for v
    using clamp_in_range [of 0 1] by (simp add: div_255_NaN sh_to_color_NaN)
  have n: "clamp 0 1 (div_255 NaN) = NaN" "clamp 0 1 (sh_to_color NaN) = NaN" "clamp 0 1 NaN = NaN"
    by (simp_all add: clamp_NaN div_255_NaN sh_to_color_NaN)
  have e: "decodeColorDC [Fin 1, Fin 2] F32 ColorAuto = ([Fin 0.78209479177387814, Fin 1], ''sh'')"
    by (simp add: decodeColorDC_def num_lt_def num_gt_def sh_to_color_def SH_C0_def clamp_def
        Math_max_def Math_min_def)
  have a: "\<bar>0.78209479177387814 - 0.782095 :: real\<bar> < 1 / 10 ^ 6"
    by simp
  have d: "decodeColorDC vs t m =
      (if t = U8 then (map (\<lambda>v. clamp 0 1 (div_255 v)) vs, ''u8'')
       else if m = ColorSH \<or> (m = ColorAuto \<and> (\<exists>v\<in>set vs. outside_unit v))
         then (map (\<lambda>v. clamp 0 1 (sh_to_color v)) vs, ''sh'')
       else (map (clamp 0 1) vs, ''linear''))" for t m
    by (auto simp add: decodeColorDC_def ex Let_def)
  have p1: "dt = U8 \<longrightarrow> decodeColorDC vs dt mode = (map (\<lambda>v. clamp 0 1 (div_255 v)) vs, ''u8'')"
    by (simp add: d)
  have p2: "dt \<noteq> U8 \<and> (mode = ColorSH \<or> (mode = ColorAuto \<and> (\<exists>v\<in>set vs. outside_unit v))) \<longrightarrow>
        decodeColorDC vs dt mode = (map (\<lambda>v. clamp 0 1 (sh_to_color v)) vs, ''sh'')"
    by (simp add: d)
  have p3: "dt \<noteq> U8 \<and> (mode = ColorLinear \<or> (mode = ColorAuto \<and> \<not> (\<exists>v\<in>set vs. outside_unit v))) \<longrightarrow>
        decodeColorDC vs dt mode = (map (clamp 0 1) vs, ''linear'')"
    by (cases mode) (auto simp add: d)
  have p4: "length (fst (decodeColorDC vs dt mode)) = length vs"
    by (simp add: d)
  have p5: "\<forall>i<length vs. (vs ! i \<noteq> NaN \<longrightarrow> in_range 0 1 (fst (decodeColorDC vs dt mode) ! i))
                     \<and> (vs ! i = NaN \<longrightarrow> fst (decodeColorDC vs dt mode) ! i = NaN)"
    using r n by (simp add: d)
  have p6: "sh_to_color (Fin v) = Fin (v * 0.28209479177387814 + 0.5)"
    by (simp add: sh_to_color_def SH_C0_def)
  show ?thesis
    using p1 p2 p3 p4 p5 p6 e a by blast
qed

theorem C5_decodeColorDC_witness:
  "decodeColorDC [Fin 255, Fin 51] U8 ColorAuto = ([Fin 1, Fin (1 / 5)], ''u8'')
   \<and> outside_unit (Fin 2)
   \<and> decodeColorDC [Fin 1, Fin 2] F32 ColorAuto = ([Fin 0.78209479177387814, Fin 1], ''sh'')
   \<and> \<not> outside_unit (Fin (1 / 4))
   \<and> decodeColorDC [Fin (1 / 4)] F32 ColorAuto = ([Fin (1 / 4)], ''linear'')
   \<and> in_range 0 1 (fst (decodeColorDC [Fin (1 / 4)] F32 ColorAuto) ! 0)
   \<and> fst (decodeColorDC [NaN] F32 ColorAuto) ! 0 = NaN"
proof -
  have o: "outside_unit (Fin 2)" "\<not> outside_unit (Fin (1 / 4))"
    by (simp_all add: outside_unit_def num_lt_def num_gt_def)
  have c: "clamp 0 1 (div_255 (Fin 255)) = Fin 1" "clamp 0 1 (div_255 (Fin 51)) = Fin (1 / 5)"
    "clamp 0 1 (Fin (1 / 4)) = Fin (1 / 4)"
    by (simp_all add: clamp_def div_255_def Math_max_def Math_min_def)
  have w1: "decodeColorDC [Fin 255, Fin 51] U8 ColorAuto = ([Fin 1, Fin (1 / 5)], ''u8'')"
    using C5_decodeColorDC [of U8 "[Fin 255, Fin 51]" ColorAuto] by (simp add: c)
  have w2: "decodeColorDC [Fin 1, Fin 2] F32 ColorAuto = ([Fin 0.78209479177387814, Fin 1], ''sh'')"
    using C5_decodeColorDC [of F32 "[Fin 1, Fin 2]" ColorAuto] by simp
  have w3: "decodeColorDC [Fin (1 / 4)] F32 ColorAuto = ([Fin (1 / 4)], ''linear'')"
    using C5_decodeColorDC [of F32 "[Fin (1 / 4)]" ColorAuto] o by (simp add: c)
  have w4: "in_range 0 1 (fst (decodeColorDC [Fin (1 / 4)] F32 ColorAuto) ! 0)"
    using C5_decodeColorDC [of F32 "[Fin (1 / 4)]" ColorAuto] by simp
  have w5: "fst (decodeColorDC [NaN] F32 ColorAuto) ! 0 = NaN"
    using C5_decodeColorDC [of F32 "[NaN]" ColorAuto] by simp
  show ?thesis
    using o w1 w2 w3 w4 w5 by blast
qed



text \<open>
  C7, as stated, fails on the buffer [NaN] under "auto": the output is NaN and not a value
  of the interval [0,1].
\<close>

theorem C7_nan_counterexample:
  "applyOpacityPolicy [NaN] OpacityAuto = ([NaN], ''linear'')
   \<and> \<not> list_all (in_range 0 1) (fst (applyOpacityPolicy [NaN] OpacityAuto))"
  by (simp add: applyOpacityPolicy_def num_lt_def num_gt_def clamp_def Math_max_def Math_min_def
      in_range_def)

text \<open>
  C7 (amended). For every opacity buffer: the mode "logits" forces the logit
  interpretation, "linear" forces pass-through, and "auto" gives the tag "logits" exactly
  when some raw value is less than 0 or greater than 1 (a NaN value is neither), else
  "linear". Logit values are mapped through 1 / (1 + e^(-x)), linear values pass through,
  and every output goes through max(0, min(1, .)): it lies in [0,1] unless the raw value
  is NaN, which stays NaN. The resolver copies the value of each primitive to its 3
  vertices (1 where the buffer has no value for the primitive). A buffer with the value 2
  under "auto" is tagged "logits" and the entry becomes 1 / (1 + e^(-2)), within 0.0001 of
  0.8808.
\<close>

theorem C7_opacity_policy:
  "(mode = OpacityLogits \<or> (mode = OpacityAuto \<and> (\<exists>v\<in>set vs. outside_unit v)) \<longrightarrow>
      applyOpacityPolicy vs mode = (map (\<lambda>v. clamp 0 1 (sigmoid v)) vs, ''logits''))
   \<and> (mode = OpacityLinear \<or> (mode = OpacityAuto \<and> \<not> (\<exists>v\<in>set vs. outside_unit v)) \<longrightarrow>
        applyOpacityPolicy vs mode = (map (clamp 0 1) vs, ''linear''))
   \<and> sigmoid (Fin x) = Fin (1 / (1 + exp (- x)))
   \<and> (\<forall>i<length vs.
         (vs ! i \<noteq> NaN \<longrightarrow> in_range 0 1 (fst (applyOpacityPolicy vs mode) ! i))
         \<and> (vs ! i = NaN \<longrightarrow> fst (applyOpacityPolicy vs mode) ! i = NaN))
   \<and> (resolve_opacity s (Some ot) mode n (n * 3) = (s', r, tag) \<longrightarrow>
        tag = snd (applyOpacityPolicy (elements (s ! data ot)) mode)
        \<and> (\<exists>a alphas. r = Some a \<and> a < length s' \<and> s' ! a = Float32Array alphas
              \<and> length alphas = n * 3
              \<and> (\<forall>tri<n. \<forall>v<3. alphas ! (tri * 3 + v)
                    = value_or (fst (applyOpacityPolicy (elements (s ! data ot)) mode)) tri (Fin 1))))
   \<and> applyOpacityPolicy [Fin 2] OpacityAuto = ([Fin (1 / (1 + exp (- 2)))], ''logits'')
   \<and> \<bar>1 / (1 + exp (- 2 :: real)) - 0.8808\<bar> < 1 / 10 ^ 4"
proof -
  have ex: "list_ex (\<lambda>v. num_lt v 0 \<or> num_gt v 1) vs = (\<exists>v\<in>set vs. outside_unit v)"
    by (simp add: list_ex_iff outside_unit_def)
  have d: "applyOpacityPolicy vs m =
      (if m = OpacityLogits \<or> (m = OpacityAuto \<and> (\<exists>v\<in>set vs. outside_unit v))
       then (map (\<lambda>v. clamp 0 1 (sigmoid v)) vs, ''logits'')
       else (map (clamp 0 1) vs, ''linear''))" for m
    by (auto simp add: applyOpacityPolicy_def ex Let_def)
  have p1: "mode = OpacityLogits \<or> (mode = OpacityAuto \<and> (\<exists>v\<in>set vs. outside_unit v)) \<longrightarrow>
      applyOpacityPolicy vs mode = (map (\<lambda>v. clamp 0 1 (sigmoid v)) vs, ''logits'')"
    by (simp add: d)
  have p2: "mode = OpacityLinear \<or> (mode = OpacityAuto \<and> \<not> (\<exists>v\<in>set vs. outside_unit v)) \<longrightarrow>
        applyOpacityPolicy vs mode = (map (clamp 0 1) vs, ''linear'')"
    by (cases mode) (auto simp add: d)
  have p3: "sigmoid (Fin x) = Fin (1 / (1 + exp (- x)))"
    by (simp add: sigmoid_def)
  have r: "(v \<noteq> NaN \<longrightarrow> in_range 0 1 (clamp 0 1 (sigmoid v)))
           \<and> (v \<noteq> NaN \<longrightarrow> in_range 0 1 (clamp 0 1 v))" for v
    using clamp_in_range [of 0 1] by (simp add: sigmoid_NaN)
  have nn: "clamp 0 1 (sigmoid NaN) = NaN" "clamp 0 1 NaN = NaN"
    by (simp_all add: clamp_NaN sigmoid_NaN)
  have p4: "\<forall>i<length vs.
         (vs ! i \<noteq> NaN \<longrightarrow> in_range 0 1 (fst (applyOpacityPolicy vs mode) ! i))
         \<and> (vs ! i = NaN \<longrightarrow> fst (applyOpacityPolicy vs mode) ! i = NaN)"
    using r nn by (simp add: d)
  have p5: "resolve_opacity s (Some ot) mode n (n * 3) = (s', r, tag) \<longrightarrow>
        tag = snd (applyOpacityPolicy (elements (s ! data ot)) mode)
        \<and> (\<exists>a alphas. r = Some a \<and> a < length s' \<and> s' ! a = Float32Array alphas
              \<and> length alphas = n * 3
              \<and> (\<forall>tri<n. \<forall>v<3. alphas ! (tri * 3 + v)
                    = value_or (fst (applyOpacityPolicy (elements (s ! data ot)) mode)) tri (Fin 1)))"
  proof
    assume a: "resolve_opacity s (Some ot) mode n (n * 3) = (s', r, tag)"
    let ?vals = "fst (applyOpacityPolicy (elements (s ! data ot)) mode)"
    let ?alphas = "broadcast_loop ?vals (Fin 1) n 0 (replicate (n * 3) (Fin 0))"
    obtain b where b: "tag = snd (applyOpacityPolicy (elements (s ! data ot)) mode)"
      "b < length s'" "r = Some b" "s' ! b = Float32Array ?alphas"
      using resolve_opacity_found [OF a] by blast
    have "length ?alphas = n * 3"
      by (rule broadcast_length)
    moreover have "\<forall>tri<n. \<forall>v<3. ?alphas ! (tri * 3 + v) = value_or ?vals tri (Fin 1)"
      by (simp add: broadcast_per_vertex)
    ultimately show "tag = snd (applyOpacityPolicy (elements (s ! data ot)) mode)
        \<and> (\<exists>a alphas. r = Some a \<and> a < length s' \<and> s' ! a = Float32Array alphas
              \<and> length alphas = n * 3
              \<and> (\<forall>tri<n. \<forall>v<3. alphas ! (tri * 3 + v) = value_or ?vals tri (Fin 1)))"
      using b by blast
  qed
  have p6: "applyOpacityPolicy [Fin 2] OpacityAuto = ([Fin (1 / (1 + exp (- 2)))], ''logits'')"
  proof -
    have "0 < 1 / (1 + exp (- 2 :: real))" "1 / (1 + exp (- 2 :: real)) < 1"
      by (simp_all add: add_pos_pos)
    then show ?thesis
      by (simp add: applyOpacityPolicy_def num_lt_def num_gt_def sigmoid_def clamp_def
          Math_max_def Math_min_def min_def max_def)
  qed
  show ?thesis
    using p1 p2 p3 p4 p5 p6 sigmoid_2_approx by blast
qed

theorem C7_opacity_policy_witness:
  "outside_unit (Fin 2)
   \<and> applyOpacityPolicy [Fin 2, Fin (1 / 4)] OpacityAuto
       = ([clamp 0 1 (sigmoid (Fin 2)), clamp 0 1 (sigmoid (Fin (1 / 4)))], ''logits'')
   \<and> \<not> outside_unit (Fin (1 / 4)) \<and> \<not> outside_unit (Fin (3 / 4))
   \<and> applyOpacityPolicy [Fin (1 / 4), Fin (3 / 4)] OpacityAuto
       = ([Fin (1 / 4), Fin (3 / 4)], ''linear'')
   \<and> in_range 0 1 (fst (applyOpacityPolicy [Fin 2, Fin (1 / 4)] OpacityAuto) ! 0)
   \<and> (\<exists>s' a alphas.
         resolve_opacity scalar_store (Some scalar_tensor) OpacityAuto 2 (2 * 3)
           = (s', Some a, ''linear'')
         \<and> s' ! a = Float32Array alphas \<and> length alphas = 6
         \<and> alphas ! 0 = Fin (1 / 4)
         \<and> alphas ! 3 = Fin (3 / 4) \<and> alphas ! 5 = Fin (3 / 4))"
proof -
  have o: "outside_unit (Fin 2)" "\<not> outside_unit (Fin (1 / 4))" "\<not> outside_unit (Fin (3 / 4))"
    by (simp_all add: outside_unit_def num_lt_def num_gt_def)
  have c: "clamp 0 1 (Fin (1 / 4)) = Fin (1 / 4)" "clamp 0 1 (Fin (3 / 4)) = Fin (3 / 4)"
    by (simp_all add: clamp_def Math_max_def Math_min_def)
  have w1: "applyOpacityPolicy [Fin 2, Fin (1 / 4)] OpacityAuto
       = ([clamp 0 1 (sigmoid (Fin 2)), clamp 0 1 (sigmoid (Fin (1 / 4)))], ''logits'')"
    using C7_opacity_policy [of OpacityAuto "[Fin 2, Fin (1 / 4)]"] o by simp
  have w2: "applyOpacityPolicy [Fin (1 / 4), Fin (3 / 4)] OpacityAuto
       = ([Fin (1 / 4), Fin (3 / 4)], ''linear'')"
    using C7_opacity_policy [of OpacityAuto "[Fin (1 / 4), Fin (3 / 4)]"] o by (simp add: c)
  have w3: "in_range 0 1 (fst (applyOpacityPolicy [Fin 2, Fin (1 / 4)] OpacityAuto) ! 0)"
    using C7_opacity_policy [of OpacityAuto "[Fin 2, Fin (1 / 4)]"] by simp
  obtain s' r tag where a:
    "resolve_opacity scalar_store (Some scalar_tensor) OpacityAuto 2 (2 * 3) = (s', r, tag)"
    using prod_cases3 by blast
  have e: "elements (scalar_store ! data scalar_tensor) = [Fin (1 / 4), Fin (3 / 4)]"
    by (simp add: scalar_store_def scalar_tensor_def)
  have "tag = ''linear''
        \<and> (\<exists>b alphas. r = Some b \<and> b < length s' \<and> s' ! b = Float32Array alphas
              \<and> length alphas = 2 * 3
              \<and> (\<forall>tri<2. \<forall>v<3. alphas ! (tri * 3 + v)
                    = value_or [Fin (1 / 4), Fin (3 / 4)] tri (Fin 1)))"
    using C7_opacity_policy [of OpacityAuto _ _ scalar_store scalar_tensor 2 s' r tag] a
    by (simp add: e w2)
  then obtain b alphas where b: "tag = ''linear''" "r = Some b" "s' ! b = Float32Array alphas"
    "length alphas = 6"
    "\<And>tri v. tri < 2 \<Longrightarrow> v < 3 \<Longrightarrow> alphas ! (tri * 3 + v) = value_or [Fin (1 / 4), Fin (3 / 4)] tri (Fin 1)"
    by auto
  have "alphas ! 0 = Fin (1 / 4)" "alphas ! 3 = Fin (3 / 4)"
    "alphas ! 5 = Fin (3 / 4)"
    using b(5) [of 0 0] b(5) [of 1 0] b(5) [of 1 2] by (simp_all add: value_or_def)
  then have w4: "\<exists>s' a alphas.
         resolve_opacity scalar_store (Some scalar_tensor) OpacityAuto 2 (2 * 3)
           = (s', Some a, ''linear'')
         \<and> s' ! a = Float32Array alphas \<and> length alphas = 6
         \<and> alphas ! 0 = Fin (1 / 4)
         \<and> alphas ! 3 = Fin (3 / 4) \<and> alphas ! 5 = Fin (3 / 4)"
    using a b(1-4) by blast
  show ?thesis
    using o w1 w2 w3 w4 by blast
qed




text \<open>
  C9. For every buffer and expected format the parser makes its structural checks in this
  order, each failing with its own error: a buffer shorter than 32 bytes; a magic that
  differs from the expected format; a TOC length that is not a multiple of 32; a data
  section start 32 + header length + TOC length beyond the buffer; a header that is not
  JSON, or is falsy, or has no tensors array; a definitions array shorter than TOC length
  / 32. When none holds, the result is that of decoding the entries.
\<close>

theorem C9_structural_checks_in_order:
  "(length buffer < 32 \<longrightarrow> parseContainer jp buffer fmt = Inl (BufferTooSmall (length buffer)))
   \<and> (32 \<le> length buffer \<and> getMagic buffer \<noteq> fmt \<longrightarrow>
        parseContainer jp buffer fmt = Inl (BadMagic fmt (getMagic buffer)))
   \<and> (32 \<le> length buffer \<and> getMagic buffer = fmt \<and> toc_length buffer mod 32 \<noteq> 0 \<longrightarrow>
        parseContainer jp buffer fmt = Inl (InvalidTOCLength (toc_length buffer)))
   \<and> (32 \<le> length buffer \<and> getMagic buffer = fmt \<and> toc_length buffer mod 32 = 0
        \<and> 32 + header_length buffer + toc_length buffer > length buffer \<longrightarrow>
        parseContainer jp buffer fmt
          = Inl (HeaderTOCOverflow (32 + header_length buffer + toc_length buffer) (length buffer)))
   \<and> (layout_ok buffer fmt \<and> jp (header_bytes buffer) = SyntaxError message \<longrightarrow>
        parseContainer jp buffer fmt = Inl (InvalidHeader (InvalidJSON message)))
   \<and> (layout_ok buffer fmt \<and> jp (header_bytes buffer) = Falsy \<longrightarrow>
        parseContainer jp buffer fmt = Inl (InvalidHeader MissingTensorsArray))
   \<and> (layout_ok buffer fmt \<and> jp (header_bytes buffer) = Object hdr \<and> hdr_tensors hdr = None \<longrightarrow>
        parseContainer jp buffer fmt = Inl (InvalidHeader MissingTensorsArray))
   \<and> (layout_ok buffer fmt \<and> jp (header_bytes buffer) = Object hdr \<and> hdr_tensors hdr = Some defs
        \<and> length defs < toc_length buffer div 32 \<longrightarrow>
        parseContainer jp buffer fmt
          = Inl (HeaderTensorCountMismatch (length defs) (toc_length buffer div 32)))
   \<and> (layout_ok buffer fmt \<and> jp (header_bytes buffer) = Object hdr \<and> hdr_tensors hdr = Some defs
        \<and> toc_length buffer div 32 \<le> length defs \<longrightarrow>
        parseContainer jp buffer fmt = decode_all buffer fmt hdr defs)"
proof -
  have small: "length buffer < 32 \<Longrightarrow> parseContainer jp buffer fmt = Inl (BufferTooSmall (length buffer))"
    by (simp add: parseContainer_def FILE_HEADER_SIZE_def)
  have magic: "32 \<le> length buffer \<Longrightarrow> getMagic buffer \<noteq> fmt \<Longrightarrow>
      parseContainer jp buffer fmt = Inl (BadMagic fmt (getMagic buffer))"
    by (simp add: parseContainer_def FILE_HEADER_SIZE_def Let_def)
  show ?thesis
    using small magic
    by (simp add: layout_ok_def parseContainer_after_magic data_start_def)
qed

theorem C9_structural_checks_in_order_witness:
  "parseContainer (\<lambda>bs. Falsy) [] ''TGSP'' = Inl (BufferTooSmall 0)
   \<and> parseContainer (\<lambda>bs. Falsy) (fixed_header tgsd_bytes 0 0) ''TGSP'' = Inl (BadMagic ''TGSP'' ''TGSD'')
   \<and> parseContainer (\<lambda>bs. Falsy) (fixed_header tgsp_bytes 0 5) ''TGSP'' = Inl (InvalidTOCLength 5)
   \<and> parseContainer (\<lambda>bs. Falsy) (fixed_header tgsp_bytes 0 32) ''TGSP'' = Inl (HeaderTOCOverflow 64 32)
   \<and> layout_ok (fixed_header tgsp_bytes 0 0) ''TGSP''
   \<and> parseContainer (\<lambda>bs. SyntaxError ''Unexpected end of JSON input'') (fixed_header tgsp_bytes 0 0) ''TGSP''
        = Inl (InvalidHeader (InvalidJSON ''Unexpected end of JSON input''))
   \<and> parseContainer (\<lambda>bs. Falsy) (fixed_header tgsp_bytes 0 0) ''TGSP''
        = Inl (InvalidHeader MissingTensorsArray)
   \<and> parseContainer (\<lambda>bs. Object (header_of None)) (fixed_header tgsp_bytes 0 0) ''TGSP''
        = Inl (InvalidHeader MissingTensorsArray)
   \<and> layout_ok (fixed_header tgsp_bytes 0 32 @ replicate 32 0) ''TGSP''
   \<and> parseContainer (\<lambda>bs. Object (header_of (Some []))) (fixed_header tgsp_bytes 0 32 @ replicate 32 0) ''TGSP''
        = Inl (HeaderTensorCountMismatch 0 1)
   \<and> parseContainer (\<lambda>bs. Object (header_of (Some []))) (fixed_header tgsp_bytes 0 0) ''TGSP''
        = decode_all (fixed_header tgsp_bytes 0 0) ''TGSP'' (header_of (Some [])) []"
proof -
  have l0: "layout_ok (fixed_header tgsp_bytes 0 0) ''TGSP''"
    by (simp add: layout_ok_def data_start_def fh_facts)
  have l1: "layout_ok (fixed_header tgsp_bytes 0 32 @ replicate 32 0) ''TGSP''"
    by (simp add: layout_ok_def data_start_def fh_facts)
  have w1: "parseContainer (\<lambda>bs. Falsy) [] ''TGSP'' = Inl (BufferTooSmall 0)"
    using C9_structural_checks_in_order [of "[]" "\<lambda>bs. Falsy" "''TGSP''"] by simp
  have w2: "parseContainer (\<lambda>bs. Falsy) (fixed_header tgsd_bytes 0 0) ''TGSP'' = Inl (BadMagic ''TGSP'' ''TGSD'')"
    using C9_structural_checks_in_order [of "fixed_header tgsd_bytes 0 0" "\<lambda>bs. Falsy" "''TGSP''"]
    by (simp add: fh_facts)
  have w3: "parseContainer (\<lambda>bs. Falsy) (fixed_header tgsp_bytes 0 5) ''TGSP'' = Inl (InvalidTOCLength 5)"
    using C9_structural_checks_in_order [of "fixed_header tgsp_bytes 0 5" "\<lambda>bs. Falsy" "''TGSP''"]
    by (simp add: fh_facts)
  have w4: "parseContainer (\<lambda>bs. Falsy) (fixed_header tgsp_bytes 0 32) ''TGSP'' = Inl (HeaderTOCOverflow 64 32)"
    using C9_structural_checks_in_order [of "fixed_header tgsp_bytes 0 32" "\<lambda>bs. Falsy" "''TGSP''"]
    by (simp add: fh_facts)
  have w5: "parseContainer (\<lambda>bs. SyntaxError ''Unexpected end of JSON input'') (fixed_header tgsp_bytes 0 0) ''TGSP''
        = Inl (InvalidHeader (InvalidJSON ''Unexpected end of JSON input''))"
    using C9_structural_checks_in_order [of "fixed_header tgsp_bytes 0 0"
        "\<lambda>bs. SyntaxError ''Unexpected end of JSON input''" "''TGSP''" "''Unexpected end of JSON input''"] l0
    by simp
  have w6: "parseContainer (\<lambda>bs. Falsy) (fixed_header tgsp_bytes 0 0) ''TGSP''
        = Inl (InvalidHeader MissingTensorsArray)"
    using C9_structural_checks_in_order [of "fixed_header tgsp_bytes 0 0" "\<lambda>bs. Falsy" "''TGSP''"] l0
    by simp
  have w7: "parseContainer (\<lambda>bs. Object (header_of None)) (fixed_header tgsp_bytes 0 0) ''TGSP''
        = Inl (InvalidHeader MissingTensorsArray)"
    using C9_structural_checks_in_order [of "fixed_header tgsp_bytes 0 0"
        "\<lambda>bs. Object (header_of None)" "''TGSP''" _ "header_of None"] l0
    by (simp add: header_of_def)
  have w8: "parseContainer (\<lambda>bs. Object (header_of (Some []))) (fixed_header tgsp_bytes 0 32 @ replicate 32 0) ''TGSP''
        = Inl (HeaderTensorCountMismatch 0 1)"
    using C9_structural_checks_in_order [of "fixed_header tgsp_bytes 0 32 @ replicate 32 0"
        "\<lambda>bs. Object (header_of (Some []))" "''TGSP''" _ "header_of (Some [])" "[]"] l1
    by (simp add: header_of_def fh_facts)
  have w9: "parseContainer (\<lambda>bs. Object (header_of (Some []))) (fixed_header tgsp_bytes 0 0) ''TGSP''
        = decode_all (fixed_header tgsp_bytes 0 0) ''TGSP'' (header_of (Some [])) []"
    using C9_structural_checks_in_order [of "fixed_header tgsp_bytes 0 0"
        "\<lambda>bs. Object (header_of (Some []))" "''TGSP''" _ "header_of (Some [])" "[]"] l0
    by (simp add: header_of_def fh_facts)
  show ?thesis
    using l0 l1 w1 w2 w3 w4 w5 w6 w7 w8 w9 by blast
qed

text \<open>
  C10. On every buffer on which format detection succeeds, \<open>FormatLoader.parse\<close> passes the
  detected magic itself (also the alias TGSD) to the parser as the expected format, and
  never fails with a bad magic.
\<close>

theorem C10_magic_check_unreachable:
  "detectFormat buffer = Inr d \<Longrightarrow>
     det_magic d = getMagic buffer
     \<and> FormatLoader_parse jp buffer = parseContainer jp buffer (getMagic buffer)
     \<and> FormatLoader_parse jp buffer \<noteq> Inl (BadMagic expected found)"
proof -
  assume a: "detectFormat buffer = Inr d"
  have m: "det_magic d = getMagic buffer"
    using a by (auto simp: detectFormat_def Let_def split: if_splits)
  have p: "FormatLoader_parse jp buffer = parseContainer jp buffer (getMagic buffer)"
    using a by (auto simp: FormatLoader_parse_def bind_result_def detectFormat_def Let_def
        parseTGSP_def parseTSGD_def split: if_splits)
  have "parseContainer jp buffer (getMagic buffer) \<noteq> Inl (BadMagic expected found)"
  proof (cases "length buffer < 32")
    case True
    then show ?thesis by (simp add: parseContainer_def FILE_HEADER_SIZE_def)
  next
    case False
    then have "32 \<le> length buffer" by simp
    then show ?thesis
      by (simp add: parseContainer_after_magic decode_all_not_BadMagic
          split: parse_result.split option.split)
  qed
  then show ?thesis using m p by simp
qed

theorem C10_magic_check_unreachable_witness:
  "detectFormat (fixed_header tgsd_bytes 0 0)
     = Inr \<lparr>det_format = FormatTSGD, det_parser = Tsgd, det_magic = ''TGSD''\<rparr>
   \<and> FormatLoader_parse (\<lambda>bs. Falsy) (fixed_header tgsd_bytes 0 0)
       = parseContainer (\<lambda>bs. Falsy) (fixed_header tgsd_bytes 0 0) ''TGSD''
   \<and> FormatLoader_parse (\<lambda>bs. Falsy) (fixed_header tgsd_bytes 0 0) \<noteq> Inl (BadMagic ''TGSD'' ''TGSD'')"
proof -
  have d: "detectFormat (fixed_header tgsd_bytes 0 0)
     = Inr \<lparr>det_format = FormatTSGD, det_parser = Tsgd, det_magic = ''TGSD''\<rparr>"
    by (simp add: detectFormat_def fh_facts)
  show ?thesis
    using C10_magic_check_unreachable [OF d, of "\<lambda>bs. Falsy" "''TGSD''" "''TGSD''"] d
    unfolding fh_facts by blast
qed

end
